theory Spec2Isabelle
  imports Main
begin

section \<open>JavaScript values\<close>

text \<open>
  The library is untyped JavaScript: a field of a device or of a parsed frame can hold
  any value, in particular \<open>undefined\<close> (a key that the frame does not carry) or a number
  where the documentation announces a string. Numbers are modelled as integers (the
  values the protocol carries are integral: temperatures, Unix seconds, status codes):
  \<open>JNum n\<close> stands for the JavaScript number \<open>n\<close> when \<open>n\<close> is a safe integer, of
  magnitude at most \<open>2^53 - 1\<close>; fractions, NaN and the doubles beyond that range are
  not values of the model. An object is the list of its own properties in insertion
  order. A function is not a value of the model either (no JSON text denotes one).
\<close>

datatype jsval =
    JUndefined
  | JNull
  | JBool bool
  | JNum int
  | JStr string
  | JObj "(string \<times> jsval) list"
  | JArr "jsval list"

datatype js_error = TypeError string | SyntaxError string | Error string | Thrown jsval

text \<open>ToBoolean: what \<open>if (v)\<close>, \<open>!v\<close>, \<open>a && b\<close> and \<open>a || b\<close> test.\<close>

fun truthy :: "jsval \<Rightarrow> bool" where
  "truthy JUndefined = False"
| "truthy JNull = False"
| "truthy (JBool b) = b"
| "truthy (JNum n) = (n \<noteq> 0)"
| "truthy (JStr s) = (s \<noteq> [])"
| "truthy (JObj kvs) = True"
| "truthy (JArr xs) = True"

text \<open>\<open>a || b\<close> on values.\<close>

definition js_or :: "jsval \<Rightarrow> jsval \<Rightarrow> jsval" where
  "js_or a b = (if truthy a then a else b)"

fun typeof :: "jsval \<Rightarrow> string" where
  "typeof JUndefined = ''undefined''"
| "typeof JNull = ''object''"
| "typeof (JBool b) = ''boolean''"
| "typeof (JNum n) = ''number''"
| "typeof (JStr s) = ''string''"
| "typeof (JObj kvs) = ''object''"
| "typeof (JArr xs) = ''object''"

text \<open>
  Property read \<open>v.k\<close> on a receiver that is neither \<open>null\<close> nor \<open>undefined\<close>, for the
  keys this library reads (none of them is inherited from a prototype): an own property
  of an object, \<open>undefined\<close> otherwise. The read on \<open>null\<close>/\<open>undefined\<close> raises and is
  written out at each place where the receiver is not guarded.
\<close>

fun getProp :: "jsval \<Rightarrow> string \<Rightarrow> jsval" where
  "getProp (JObj kvs) k = (case map_of kvs k of None \<Rightarrow> JUndefined | Some v \<Rightarrow> v)"
| "getProp v k = JUndefined"

definition nullish :: "jsval \<Rightarrow> bool" where
  "nullish v = (v = JUndefined \<or> v = JNull)"

text \<open>
  Strict equality \<open>a === b\<close>. Two objects (or arrays) are equal only when they are the
  same reference; the operands compared in this library come from separate
  \<open>JSON.parse\<close> results, so an object is never equal to anything here.
\<close>

fun strict_eq :: "jsval \<Rightarrow> jsval \<Rightarrow> bool" where
  "strict_eq (JObj a) b = False"
| "strict_eq (JArr a) b = False"
| "strict_eq a b = (a = b)"

subsection \<open>String conversion\<close>

definition digit_char :: "nat \<Rightarrow> char" where
  "digit_char d = ''0123456789'' ! d"

function string_of_nat :: "nat \<Rightarrow> string" where
  "string_of_nat n =
     (if n < 10 then [digit_char n] else string_of_nat (n div 10) @ [digit_char (n mod 10)])"
  by pat_completeness auto
termination
  by (relation "measure (\<lambda>n. n)") auto

declare string_of_nat.simps [simp del]

definition string_of_int :: "int \<Rightarrow> string" where
  "string_of_int i = (if i < 0 then CHR ''-'' # string_of_nat (nat (- i)) else string_of_nat (nat i))"

fun join_comma :: "string list \<Rightarrow> string" where
  "join_comma [] = []"
| "join_comma [s] = s"
| "join_comma (s # t # ts) = s @ '','' @ join_comma (t # ts)"

text \<open>\<open>String(v)\<close>, also what a template literal and \<open>+\<close> with a string apply.\<close>

fun String_js :: "jsval \<Rightarrow> string" where
  "String_js JUndefined = ''undefined''"
| "String_js JNull = ''null''"
| "String_js (JBool b) = (if b then ''true'' else ''false'')"
| "String_js (JNum n) = string_of_int n"
| "String_js (JStr s) = s"
| "String_js (JObj kvs) = ''[object Object]''"
| "String_js (JArr xs) =
     join_comma (map (\<lambda>x. if x = JUndefined \<or> x = JNull then [] else String_js x) xs)"



text \<open>
  \<open>err.message\<close>. A promise may be rejected with a value that is not an Error
  (\<open>Thrown\<close>); its message is then read as a property.
\<close>

fun message :: "js_error \<Rightarrow> string" where
  "message (TypeError s) = s"
| "message (SyntaxError s) = s"
| "message (Error s) = s"
| "message (Thrown v) = String_js (getProp v ''message'')"

text \<open>\<open>s.startsWith(p)\<close> and \<open>s.includes(p)\<close> on strings.\<close>

definition startsWith :: "string \<Rightarrow> string \<Rightarrow> bool" where
  "startsWith s p = (take (length p) s = p)"

fun includes_js :: "string \<Rightarrow> string \<Rightarrow> bool" where
  "includes_js [] p = (p = [])"
| "includes_js (c # cs) p = (startsWith (c # cs) p \<or> includes_js cs p)"

text \<open>
  \<open>s.toUpperCase()\<close> on the characters a MAC address is written with (ASCII): the
  letters a to z go to A to Z, every other character stays.
\<close>

definition upper_char :: "char \<Rightarrow> char" where
  "upper_char c =
     (case map_of (zip ''abcdefghijklmnopqrstuvwxyz'' ''ABCDEFGHIJKLMNOPQRSTUVWXYZ'') c of
        None \<Rightarrow> c
      | Some u \<Rightarrow> u)"

definition toUpperCase :: "string \<Rightarrow> string" where
  "toUpperCase s = map upper_char s"

section \<open>Cielo.js: the device (class CieloHVAC)\<close>

text \<open>
  The private fields of \<open>CieloHVAC\<close>. The command state and the room temperature hold
  whatever the backend sent; the MAC address is the string of the directory entry; the
  device type version is a string once the constructor has run.
\<close>

record CieloHVAC =
  power :: jsval
  temperature :: jsval
  mode :: jsval
  fanSpeed :: jsval
  roomTemperature :: jsval
  deviceName :: jsval
  macAddress :: string
  deviceTypeVersion :: string
  applianceID :: jsval
  fwVersion :: jsval

definition DEFAULT_POWER :: jsval where "DEFAULT_POWER = JStr ''off''"
definition DEFAULT_MODE :: jsval where "DEFAULT_MODE = JStr ''auto''"
definition DEFAULT_FAN :: jsval where "DEFAULT_FAN = JStr ''auto''"
definition DEFAULT_TEMPERATURE :: jsval where "DEFAULT_TEMPERATURE = JNum 75"
definition APP_VERSION :: string where "APP_VERSION = ''1.4.4''"

text \<open>The object after the field initialisers and the four plain assignments.\<close>

definition hvac_fields :: "string \<Rightarrow> jsval \<Rightarrow> jsval \<Rightarrow> jsval \<Rightarrow> string \<Rightarrow> CieloHVAC" where
  "hvac_fields mac name appl fw dtv =
     \<lparr> power = DEFAULT_POWER, temperature = DEFAULT_TEMPERATURE, mode = DEFAULT_MODE,
       fanSpeed = DEFAULT_FAN, roomTemperature = DEFAULT_TEMPERATURE, deviceName = name,
       macAddress = mac, deviceTypeVersion = dtv, applianceID = appl, fwVersion = fw \<rparr>"

text \<open>
  The constructor. \<open>deviceTypeVersion && (deviceTypeVersion.startsWith("BI") || ...)\<close>:
  a falsy argument takes the else branch, a string is tested for its prefix, and any
  other truthy value has no \<open>startsWith\<close> method, so the call raises a TypeError.
\<close>

definition valid_deviceTypeVersion :: "string \<Rightarrow> bool" where
  "valid_deviceTypeVersion s = (startsWith s ''BI'' \<or> startsWith s ''BP'')"

definition new_CieloHVAC ::
  "string \<Rightarrow> jsval \<Rightarrow> jsval \<Rightarrow> jsval \<Rightarrow> jsval \<Rightarrow> js_error + CieloHVAC" where
  "new_CieloHVAC mac name appl fw dtv =
     (if truthy dtv then
        (case dtv of
           JStr s \<Rightarrow>
             if valid_deviceTypeVersion s then Inr (hvac_fields mac name appl fw s)
             else Inr (hvac_fields mac name appl fw ''BP01'')
         | _ \<Rightarrow> Inl (TypeError ''deviceTypeVersion.startsWith is not a function''))
      else Inr (hvac_fields mac name appl fw ''BP01''))"

definition getPower :: "CieloHVAC \<Rightarrow> jsval" where "getPower h = power h"
definition getTemperature :: "CieloHVAC \<Rightarrow> jsval" where "getTemperature h = temperature h"
definition getMode :: "CieloHVAC \<Rightarrow> jsval" where "getMode h = mode h"
definition getFanSpeed :: "CieloHVAC \<Rightarrow> jsval" where "getFanSpeed h = fanSpeed h"
definition getRoomTemperature :: "CieloHVAC \<Rightarrow> jsval" where "getRoomTemperature h = roomTemperature h"
definition getMacAddress :: "CieloHVAC \<Rightarrow> string" where "getMacAddress h = macAddress h"
definition getDeviceTypeVersion :: "CieloHVAC \<Rightarrow> string" where
  "getDeviceTypeVersion h = deviceTypeVersion h"
definition getApplianceID :: "CieloHVAC \<Rightarrow> jsval" where "getApplianceID h = applianceID h"
definition getFwVersion :: "CieloHVAC \<Rightarrow> jsval" where "getFwVersion h = fwVersion h"

text \<open>\<open>updateState(power, temperature, mode, fanSpeed)\<close>: four unconditional assignments.\<close>

definition updateState :: "CieloHVAC \<Rightarrow> jsval \<Rightarrow> jsval \<Rightarrow> jsval \<Rightarrow> jsval \<Rightarrow> CieloHVAC" where
  "updateState h p t m f = h\<lparr> power := p, temperature := t, mode := m, fanSpeed := f \<rparr>"

definition updateRoomTemperature :: "CieloHVAC \<Rightarrow> jsval \<Rightarrow> CieloHVAC" where
  "updateRoomTemperature h rt = h\<lparr> roomTemperature := rt \<rparr>"

section \<open>Cielo.js: the API connection (class CieloAPIConnection)\<close>

text \<open>
  The socket is the \<open>ws\<close> library's: the model keeps whether one exists and whether it
  is open, and the frames written to it. The command and temperature callbacks are
  recorded as a list of the calls made; a callback may be \<open>undefined\<close>.
  \<open>previousPowerStates\<close> is the plain object used as a dictionary from MAC address to
  the last power value.
\<close>

subsection \<open>A plain object used as a dictionary\<close>

text \<open>
  \<open>#previousPowerStates\<close> is a plain object \<open>{}\<close> indexed by MAC address. A read of a key
  that is not an own property goes up the prototype chain: \<open>Object.prototype\<close> holds a
  function under each of the names below and the accessor \<open>__proto__\<close>, which returns the
  prototype. An assignment creates or updates an own property, except under the key
  \<open>__proto__\<close> when it reaches that accessor: then an object, an array or \<open>null\<close>
  replaces the prototype and any other value is dropped. The names are those of V8 as
  shipped with Node 22 (the version the library is tested with).
\<close>

definition Object_prototype_functions :: "string list" where
  "Object_prototype_functions =
     [''constructor'', ''__defineGetter__'', ''__defineSetter__'', ''hasOwnProperty'',
      ''__lookupGetter__'', ''__lookupSetter__'', ''isPrototypeOf'', ''propertyIsEnumerable'',
      ''toString'', ''valueOf'', ''toLocaleString'']"


definition Array_prototype_functions :: "string list" where
  "Array_prototype_functions =
     [''constructor'', ''at'', ''concat'', ''copyWithin'', ''fill'', ''find'', ''findIndex'',
      ''findLast'', ''findLastIndex'', ''lastIndexOf'', ''pop'', ''push'', ''reverse'', ''shift'',
      ''unshift'', ''slice'', ''sort'', ''splice'', ''includes'', ''indexOf'', ''join'', ''keys'',
      ''entries'', ''values'', ''forEach'', ''filter'', ''flat'', ''flatMap'', ''map'', ''every'',
      ''some'', ''reduce'', ''reduceRight'', ''toReversed'', ''toSorted'', ''toSpliced'', ''with'',
      ''toLocaleString'', ''toString'']"

text \<open>What a property read finds: a value, or one of the built-in functions.\<close>

datatype property_read = DataValue jsval | NativeFunction

text \<open>
  The object: its own properties, and the value that has replaced its prototype
  (\<open>None\<close> while the prototype is \<open>Object.prototype\<close>).
\<close>

record js_dictionary =
  ownProps :: "string \<rightharpoonup> jsval"
  replacedProto :: "jsval option"

definition empty_dictionary :: js_dictionary where
  "empty_dictionary = \<lparr> ownProps = Map.empty, replacedProto = None \<rparr>"

text \<open>
  The read of \<open>k\<close> on \<open>Object.prototype\<close>, for a receiver whose prototype is
  \<open>protoValue\<close> (\<open>Object.prototype\<close> itself is an object without enumerable properties).
\<close>

definition Object_prototype_get :: "jsval \<Rightarrow> string \<Rightarrow> property_read" where
  "Object_prototype_get protoValue k =
     (if k = ''__proto__'' then DataValue protoValue
      else if k \<in> set Object_prototype_functions then NativeFunction
      else DataValue JUndefined)"

definition dict_get :: "js_dictionary \<Rightarrow> string \<Rightarrow> property_read" where
  "dict_get d k =
     (case ownProps d k of
        Some v \<Rightarrow> DataValue v
      | None \<Rightarrow>
          (case replacedProto d of
             None \<Rightarrow> Object_prototype_get (JObj []) k
           | Some (JObj kvs) \<Rightarrow>
               (case map_of kvs k of
                  Some v \<Rightarrow> DataValue v
                | None \<Rightarrow> Object_prototype_get (JObj kvs) k)
           | Some (JArr xs) \<Rightarrow>
               (case find (\<lambda>i. string_of_nat i = k) [0..<length xs] of
                  Some i \<Rightarrow> DataValue (xs ! i)
                | None \<Rightarrow>
                    if k = ''length'' then DataValue (JNum (int (length xs)))
                    else if k \<in> set Array_prototype_functions then NativeFunction
                    else Object_prototype_get (JArr xs) k)
           | Some v \<Rightarrow> DataValue JUndefined))"

text \<open>
  Whether an assignment under \<open>__proto__\<close> reaches the accessor of \<open>Object.prototype\<close>:
  no own property and no property of the replaced prototype has that name (an object
  from \<open>JSON.parse\<close> can), and the prototype has not been replaced by \<open>null\<close>.
\<close>

definition proto_setter_reached :: "js_dictionary \<Rightarrow> bool" where
  "proto_setter_reached d =
     (ownProps d ''__proto__'' = None \<and>
      (case replacedProto d of
         None \<Rightarrow> True
       | Some (JObj kvs) \<Rightarrow> map_of kvs ''__proto__'' = None
       | Some (JArr xs) \<Rightarrow> True
       | Some v \<Rightarrow> False))"

definition dict_set :: "js_dictionary \<Rightarrow> string \<Rightarrow> jsval \<Rightarrow> js_dictionary" where
  "dict_set d k v =
     (if k = ''__proto__'' \<and> proto_setter_reached d then
        (case v of
           JObj kvs \<Rightarrow> d\<lparr> replacedProto := Some v \<rparr>
         | JArr xs \<Rightarrow> d\<lparr> replacedProto := Some v \<rparr>
         | JNull \<Rightarrow> d\<lparr> replacedProto := Some v \<rparr>
         | _ \<Rightarrow> d)
      else d\<lparr> ownProps := (ownProps d)(k \<mapsto> v) \<rparr>)"

datatype ws_state = WsOpen | WsNotOpen

datatype notification = CommandCallback jsval | TemperatureCallback jsval

datatype settle = Resolves | Rejects js_error | NeverSettles

datatype fetch_result = FetchError js_error | FetchJSON int jsval

record CieloAPIConnection =
  sessionID :: jsval
  userID :: jsval
  accessToken :: jsval
  refreshToken :: jsval
  expiresIn :: jsval
  commandCount :: nat
  previousPowerStates :: js_dictionary
  ws :: "ws_state option"
  wsSent :: "jsval list"
  hvacs :: "CieloHVAC list"
  hasCommandCallback :: bool
  hasTemperatureCallback :: bool
  notifications :: "notification list"

definition new_CieloAPIConnection :: "bool \<Rightarrow> bool \<Rightarrow> CieloAPIConnection" where
  "new_CieloAPIConnection cc tc =
     \<lparr> sessionID = JUndefined, userID = JUndefined, accessToken = JUndefined,
       refreshToken = JUndefined, expiresIn = JUndefined, commandCount = 0,
       previousPowerStates = empty_dictionary, ws = None, wsSent = [], hvacs = [],
       hasCommandCallback = cc, hasTemperatureCallback = tc, notifications = [] \<rparr>"

subsection \<open>Login and token refresh\<close>

text \<open>
  \<open>#getAccessTokenAndSessionId\<close>: the outcome of the one HTTP request is a parameter
  (the fetch failed, or a status and the parsed body).
\<close>

definition getAccessTokenAndSessionId :: "fetch_result \<Rightarrow> js_error + jsval" where
  "getAccessTokenAndSessionId r =
     (case r of
        FetchError e \<Rightarrow> Inl e
      | FetchJSON st responseJSON \<Rightarrow>
          if nullish responseJSON then Inl (TypeError ''Cannot read properties (reading status)'')
          else if \<not> strict_eq (getProp responseJSON ''status'') (JNum 200)
                  \<or> \<not> truthy (getProp responseJSON ''data'')
                  \<or> \<not> truthy (getProp (getProp responseJSON ''data'') ''user'')
          then Inl (Error (''Login failed: '' @
                 String_js (js_or (getProp responseJSON ''message'') (JStr ''Unknown error''))))
          else Inr (getProp (getProp responseJSON ''data'') ''user''))"

definition establishConnection ::
  "CieloAPIConnection \<Rightarrow> fetch_result \<Rightarrow> js_error + CieloAPIConnection" where
  "establishConnection c r =
     (case getAccessTokenAndSessionId r of
        Inl e \<Rightarrow> Inl e
      | Inr data \<Rightarrow>
          Inr (c\<lparr> sessionID := getProp data ''sessionId'',
                  userID := getProp data ''userId'',
                  accessToken := getProp data ''accessToken'',
                  refreshToken := getProp data ''refreshToken'',
                  expiresIn := getProp data ''expiresIn'' \<rparr>))"

text \<open>
  \<open>establishConnectionWithAutoSolve\<close>: the captcha solver is an external service; it
  returns a token or fails, and the token only travels in the request.
\<close>

definition establishConnectionWithAutoSolve ::
  "CieloAPIConnection \<Rightarrow> js_error + jsval \<Rightarrow> fetch_result \<Rightarrow> js_error + CieloAPIConnection" where
  "establishConnectionWithAutoSolve c captcha r =
     (case captcha of Inl e \<Rightarrow> Inl e | Inr captchaToken \<Rightarrow> establishConnection c r)"

definition getRefreshToken :: "CieloAPIConnection \<Rightarrow> jsval" where
  "getRefreshToken c = refreshToken c"

definition getExpiresIn :: "CieloAPIConnection \<Rightarrow> jsval" where
  "getExpiresIn c = expiresIn c"

text \<open>\<open>body.error?.message\<close>\<close>

definition error_message_opt :: "jsval \<Rightarrow> jsval" where
  "error_message_opt body =
     (if nullish (getProp body ''error'') then JUndefined
      else getProp (getProp body ''error'') ''message'')"

definition refreshAccessToken ::
  "CieloAPIConnection \<Rightarrow> jsval \<Rightarrow> fetch_result \<Rightarrow> js_error + CieloAPIConnection" where
  "refreshAccessToken c refreshTokenArg r =
     (let tokenToUse = js_or refreshTokenArg (refreshToken c) in
      if \<not> truthy tokenToUse then Inl (Error ''No refresh token available. Must login first.'')
      else
        (case r of
           FetchError e \<Rightarrow> Inl (Error (''Token refresh failed: '' @ message e))
         | FetchJSON status body \<Rightarrow>
             if nullish body
             then Inl (Error (''Token refresh failed: '' @ ''Cannot read properties (reading data)''))
             else if truthy (getProp body ''data'')
             then Inr (c\<lparr> accessToken := getProp (getProp body ''data'') ''accessToken'',
                          refreshToken := getProp (getProp body ''data'') ''refreshToken'',
                          expiresIn := getProp (getProp body ''data'') ''expiresIn'' \<rparr>)
             else Inl (Error (''Token refresh failed: '' @ ''Token refresh failed ('' @
                    string_of_int status @ ''): '' @
                    String_js (js_or (getProp body ''message'')
                      (js_or (error_message_opt body) (JStr ''Unknown error'')))))))"

subsection \<open>Subscribing to the devices of the directory\<close>

text \<open>
  One entry of \<open>data.listDevices\<close>. The MAC address is the string the entry carries;
  the other fields are passed on as they are.
\<close>

record device_entry =
  e_macAddress :: string
  e_deviceName :: jsval
  e_applianceId :: jsval
  e_fwVersion :: jsval
  e_deviceTypeVersion :: jsval
  e_latestAction :: jsval
  e_latEnv :: jsval

text \<open>
  What \<open>#getDeviceInfo\<close> returned: \<open>undefined\<close> when the fetch failed, a body with a
  truthy \<open>error\<close>, or a body with the list of devices.
\<close>

datatype device_info = NoDeviceInfo | DeviceInfoError jsval | DeviceInfo "device_entry list"

definition subscribe_device :: "device_entry \<Rightarrow> js_error + CieloHVAC" where
  "subscribe_device device =
     (case new_CieloHVAC (e_macAddress device) (e_deviceName device) (e_applianceId device)
             (e_fwVersion device) (e_deviceTypeVersion device) of
        Inl e \<Rightarrow> Inl e
      | Inr hvac \<Rightarrow>
          if nullish (e_latestAction device)
          then Inl (TypeError ''Cannot read properties (reading power)'')
          else
            let hvac1 = updateState hvac
                  (getProp (e_latestAction device) ''power'')
                  (getProp (e_latestAction device) ''temp'')
                  (getProp (e_latestAction device) ''mode'')
                  (getProp (e_latestAction device) ''fanspeed'')
            in if nullish (e_latEnv device)
               then Inl (TypeError ''Cannot read properties (reading temp)'')
               else Inr (updateRoomTemperature hvac1 (getProp (e_latEnv device) ''temp'')))"

text \<open>
  The loop over the directory: the devices pushed so far stay in \<open>hvacs\<close> when an
  iteration raises.
\<close>

fun subscribe_loop ::
  "string list \<Rightarrow> device_entry list \<Rightarrow> CieloHVAC list \<Rightarrow> CieloHVAC list \<times> js_error option" where
  "subscribe_loop macAddresses [] acc = (acc, None)"
| "subscribe_loop macAddresses (device # rest) acc =
     (if macAddresses = [] \<or> e_macAddress device \<in> set macAddresses then
        (case subscribe_device device of
           Inl e \<Rightarrow> (acc, Some e)
         | Inr hvac \<Rightarrow> subscribe_loop macAddresses rest (acc @ [hvac]))
      else subscribe_loop macAddresses rest acc)"

text \<open>
  \<open>subscribeToHVACs\<close> followed by \<open>#connect\<close>: the returned promise resolves when the
  socket reports open and is never settled when it does not.
\<close>

definition subscribeToHVACs ::
  "CieloAPIConnection \<Rightarrow> string list \<Rightarrow> device_info \<Rightarrow> bool \<Rightarrow> CieloAPIConnection \<times> settle" where
  "subscribeToHVACs c macAddresses deviceInfo socketOpens =
     (let c0 = c\<lparr> hvacs := [], commandCount := 0 \<rparr> in
      case deviceInfo of
        NoDeviceInfo \<Rightarrow> (c0, Rejects (TypeError ''Cannot read properties (reading error)''))
      | DeviceInfoError e \<Rightarrow> (c0, Rejects (Thrown e))
      | DeviceInfo listDevices \<Rightarrow>
          (case subscribe_loop macAddresses listDevices [] of
             (hs, Some e) \<Rightarrow> (c0\<lparr> hvacs := hs \<rparr>, Rejects e)
           | (hs, None) \<Rightarrow>
               if socketOpens then (c0\<lparr> hvacs := hs, ws := Some WsOpen \<rparr>, Resolves)
               else (c0\<lparr> hvacs := hs, ws := Some WsNotOpen \<rparr>, NeverSettles)))"

subsection \<open>The inbound message handler\<close>

text \<open>
  The body of \<open>hvacs.forEach\<close> for a StateUpdate frame: a device whose MAC address is
  strictly equal to the frame's \<open>mac_address\<close> takes the four values of the frame's
  \<open>action\<close>, the room temperature when \<open>lat_env_var.temperature\<close> is not \<open>undefined\<close>,
  and the frame's power is recorded under the frame's MAC address.
\<close>

fun forEach_hvac ::
  "jsval \<Rightarrow> jsval \<Rightarrow> jsval \<Rightarrow> CieloHVAC list \<Rightarrow> js_dictionary
     \<Rightarrow> CieloHVAC list \<times> js_dictionary" where
  "forEach_hvac data status thisMac [] prev = ([], prev)"
| "forEach_hvac data status thisMac (hvac # rest) prev =
     (if strict_eq (JStr (getMacAddress hvac)) thisMac then
        (let hvac1 = updateState hvac (getProp status ''power'') (getProp status ''temp'')
                       (getProp status ''mode'') (getProp status ''fanspeed'');
             hvac2 = (if truthy (getProp data ''lat_env_var'')
                         \<and> getProp (getProp data ''lat_env_var'') ''temperature'' \<noteq> JUndefined
                      then updateRoomTemperature hvac1
                             (getProp (getProp data ''lat_env_var'') ''temperature'')
                      else hvac1);
             prev1 = dict_set prev (String_js thisMac) (getProp status ''power'');
             r = forEach_hvac data status thisMac rest prev1
         in (hvac2 # fst r, snd r))
      else
        (let r = forEach_hvac data status thisMac rest prev in (hvac # fst r, snd r)))"

text \<open>
  The listener of the socket's \<open>message\<close> event, from the value \<open>JSON.parse\<close> returned.
  Reading \<open>data.message_type\<close> raises when \<open>data\<close> is \<open>null\<close>.
\<close>

definition onMessage :: "CieloAPIConnection \<Rightarrow> jsval \<Rightarrow> js_error + CieloAPIConnection" where
  "onMessage c data =
     (if nullish data then Inl (TypeError ''Cannot read properties (reading message_type)'')
      else if truthy (getProp data ''message_type'')
              \<and> typeof (getProp data ''message_type'') = ''string''
              \<and> length (String_js (getProp data ''message_type'')) > 0
              \<and> truthy (getProp data ''action'')
              \<and> typeof (getProp data ''action'') = ''object''
      then
        (let messageType = getProp data ''message_type'';
             status = getProp data ''action'';
             thisMac = getProp data ''mac_address''
         in if strict_eq messageType (JStr ''StateUpdate'') then
              (let r = forEach_hvac data status thisMac (hvacs c) (previousPowerStates c);
                   c1 = c\<lparr> hvacs := fst r, previousPowerStates := snd r \<rparr>;
                   c2 = (if hasCommandCallback c1
                         then c1\<lparr> notifications := notifications c1 @ [CommandCallback status] \<rparr>
                         else c1);
                   c3 = (if hasTemperatureCallback c2
                            \<and> truthy (getProp data ''lat_env_var'')
                            \<and> truthy (getProp (getProp data ''lat_env_var'') ''temperature'')
                         then c2\<lparr> notifications := notifications c2 @
                                  [TemperatureCallback
                                     (getProp (getProp data ''lat_env_var'') ''temperature'')] \<rparr>
                         else c2)
               in Inr c3)
            else Inr c)
      else Inr c)"

text \<open>
  The listener itself starts with \<open>JSON.parse(message)\<close>, which raises a SyntaxError
  when the frame is not JSON text; nothing in the listener catches it. A frame is either
  such a text or one that parses to a value. The line appended to the debug log file
  between the two steps is not part of the model.
\<close>

datatype raw_message = NotJSON | JSONText jsval

definition JSON_parse :: "raw_message \<Rightarrow> js_error + jsval" where
  "JSON_parse msg =
     (case msg of
        NotJSON \<Rightarrow> Inl (SyntaxError ''Unexpected token in JSON'')
      | JSONText data \<Rightarrow> Inr data)"

definition messageListener ::
  "CieloAPIConnection \<Rightarrow> raw_message \<Rightarrow> js_error + CieloAPIConnection" where
  "messageListener c msg =
     (case JSON_parse msg of
        Inl e \<Rightarrow> Inl e
      | Inr data \<Rightarrow> onMessage c data)"

subsection \<open>Outbound commands\<close>

text \<open>\<open>#buildCommand\<close>: the nested \<open>actions\<close> object.\<close>

definition buildCommand ::
  "jsval \<Rightarrow> jsval \<Rightarrow> jsval \<Rightarrow> jsval \<Rightarrow> bool \<Rightarrow> string \<Rightarrow> jsval \<Rightarrow> jsval" where
  "buildCommand temp pwr fanspeed md isAction performedAction performedValue =
     (let tempValue = (if isAction \<and> performedAction = ''temp''
                       then JStr (String_js performedValue) else temp)
      in JObj
        [(''power'', if isAction \<and> performedAction = ''power'' then performedValue else pwr),
         (''mode'', if isAction \<and> performedAction = ''mode'' then performedValue else md),
         (''fanspeed'', if isAction \<and> performedAction = ''fanspeed'' then performedValue else fanspeed),
         (''temp'', tempValue),
         (''swing'', JStr ''adjust''),
         (''swinginternal'', JStr []),
         (''turbo'', JStr ''off''),
         (''light'', JStr ''on/off''),
         (''followme'', JStr ''off'')])"

text \<open>
  \<open>#buildCommandPayload\<close>: the object handed to \<open>JSON.stringify\<close>, and the connection
  with its command counter and its record of the previous power value updated.
  \<open>ts\<close> is \<open>Math.round(Date.now() / 1000)\<close>. The previous power value is
  \<open>this.#previousPowerStates[macAddress] || "off"\<close>. When the read finds an inherited
  function, that function is the value (it is truthy); \<open>JSON.stringify\<close> leaves out a
  property whose value is a function, as it does one whose value is \<open>undefined\<close>, and the
  payload holds \<open>undefined\<close> for it.
\<close>

definition oldPower_of :: "js_dictionary \<Rightarrow> string \<Rightarrow> jsval" where
  "oldPower_of prev mac =
     (case dict_get prev mac of
        NativeFunction \<Rightarrow> JUndefined
      | DataValue v \<Rightarrow> js_or v (JStr ''off''))"

definition buildCommandPayload ::
  "CieloAPIConnection \<Rightarrow> CieloHVAC \<Rightarrow> string \<Rightarrow> jsval \<Rightarrow> int \<Rightarrow> CieloAPIConnection \<times> jsval" where
  "buildCommandPayload c hvac performedAction performedActionValue ts =
     (let mac = getMacAddress hvac;
          oldPower = oldPower_of (previousPowerStates c) mac;
          c1 = c\<lparr> commandCount := commandCount c + 1 \<rparr>;
          c2 = (if performedAction = ''power''
                then c1\<lparr> previousPowerStates := dict_set (previousPowerStates c1) mac performedActionValue \<rparr>
                else c1)
      in (c2, JObj
        [(''action'', JStr ''actionControl''),
         (''actionSource'', JStr ''WEB''),
         (''applianceType'', JStr ''AC''),
         (''macAddress'', JStr mac),
         (''deviceTypeVersion'', js_or (JStr (getDeviceTypeVersion hvac)) (JStr ''BI01'')),
         (''fwVersion'', getFwVersion hvac),
         (''applianceId'', getApplianceID hvac),
         (''actionType'', JStr performedAction),
         (''actionValue'', performedActionValue),
         (''connection_source'', JNum 0),
         (''user_id'', userID c),
         (''preset'', JNum 0),
         (''oldPower'', oldPower),
         (''myRuleConfiguration'', JObj []),
         (''mid'', JStr ''WEB''),
         (''actions'', buildCommand (getTemperature hvac) (getPower hvac) (getFanSpeed hvac)
                          (getMode hvac) True performedAction performedActionValue),
         (''application_version'', JStr APP_VERSION),
         (''ts'', JNum ts)]))"

text \<open>
  \<open>sendCommand\<close>: builds the payload and writes it to the socket. The promise is
  rejected when there is no socket or the socket is not open.
\<close>

definition sendCommand ::
  "CieloAPIConnection \<Rightarrow> CieloHVAC \<Rightarrow> string \<Rightarrow> jsval \<Rightarrow> int \<Rightarrow> CieloAPIConnection \<times> settle" where
  "sendCommand c hvac performedAction performedActionValue ts =
     (let r = buildCommandPayload c hvac performedAction performedActionValue ts in
      case ws (fst r) of
        None \<Rightarrow> (fst r, Rejects (TypeError ''Cannot read properties of undefined (reading send)''))
      | Some WsNotOpen \<Rightarrow> (fst r, Rejects (Error ''WebSocket is not open''))
      | Some WsOpen \<Rightarrow> ((fst r)\<lparr> wsSent := wsSent (fst r) @ [snd r] \<rparr>, Resolves))"

text \<open>The device's own command methods.\<close>

definition setMode :: "CieloHVAC \<Rightarrow> jsval \<Rightarrow> CieloAPIConnection \<Rightarrow> int \<Rightarrow> CieloAPIConnection \<times> settle" where
  "setMode hvac m api ts = sendCommand api hvac ''mode'' m ts"

definition setFanSpeed :: "CieloHVAC \<Rightarrow> jsval \<Rightarrow> CieloAPIConnection \<Rightarrow> int \<Rightarrow> CieloAPIConnection \<times> settle" where
  "setFanSpeed hvac f api ts = sendCommand api hvac ''fanspeed'' f ts"

definition setTemperature :: "CieloHVAC \<Rightarrow> jsval \<Rightarrow> CieloAPIConnection \<Rightarrow> int \<Rightarrow> CieloAPIConnection \<times> settle" where
  "setTemperature hvac t api ts = sendCommand api hvac ''temp'' t ts"

definition powerOn :: "CieloHVAC \<Rightarrow> CieloAPIConnection \<Rightarrow> int \<Rightarrow> CieloAPIConnection \<times> settle" where
  "powerOn hvac api ts = sendCommand api hvac ''power'' (JStr ''on'') ts"

definition powerOff :: "CieloHVAC \<Rightarrow> CieloAPIConnection \<Rightarrow> int \<Rightarrow> CieloAPIConnection \<times> settle" where
  "powerOff hvac api ts = sendCommand api hvac ''power'' (JStr ''off'') ts"

section \<open>CieloConnectionManager.js\<close>

text \<open>
  The manager's fields. A timer handle is kept as the delay it was created with
  (\<open>None\<close> for \<open>null\<close>). \<open>scheduleReconnect\<close> does not keep the handle that \<open>setTimeout\<close>
  returns: \<open>reconnectTimers\<close> is the list of the timeouts it has created that have not
  fired yet, each with its delay in milliseconds. Delays, intervals and counters are
  natural numbers. The calls of the user's callbacks are recorded in \<open>events\<close>.
\<close>

datatype manager_event = OnError js_error | OnConnected | OnDisconnected

record CieloConnectionManager =
  macAddresses :: "string list"
  api :: "CieloAPIConnection option"
  isConnected :: bool
  reconnectAttempts :: nat
  maxReconnectAttempts :: nat
  reconnectDelay :: nat
  tokenExpiresAt :: "int option"
  tokenRefreshTimer :: "int option"
  healthCheckTimer :: "nat option"
  autoReconnect :: bool
  healthCheckInterval :: nat
  refreshBeforeExpiry :: nat
  disableTokenRefresh :: bool
  reconnectTimers :: "nat list"
  events :: "manager_event list"

record manager_options =
  o_macAddresses :: "string list option"
  o_maxReconnectAttempts :: "nat option"
  o_reconnectDelay :: "nat option"
  o_autoReconnect :: "bool option"
  o_healthCheckInterval :: "nat option"
  o_refreshBeforeExpiry :: "nat option"
  o_disableTokenRefresh :: "bool option"

text \<open>\<open>options.x || d\<close> on an optional number: a missing value and 0 give the default.\<close>

definition num_or :: "nat option \<Rightarrow> nat \<Rightarrow> nat" where
  "num_or v d = (case v of None \<Rightarrow> d | Some n \<Rightarrow> if n = 0 then d else n)"

definition new_CieloConnectionManager :: "manager_options \<Rightarrow> CieloConnectionManager" where
  "new_CieloConnectionManager options =
     \<lparr> macAddresses = (case o_macAddresses options of None \<Rightarrow> [] | Some ms \<Rightarrow> ms),
       api = None,
       isConnected = False,
       reconnectAttempts = 0,
       maxReconnectAttempts = num_or (o_maxReconnectAttempts options) 5,
       reconnectDelay = num_or (o_reconnectDelay options) 5000,
       tokenExpiresAt = None,
       tokenRefreshTimer = None,
       healthCheckTimer = None,
       autoReconnect = (o_autoReconnect options \<noteq> Some False),
       healthCheckInterval = num_or (o_healthCheckInterval options) 60000,
       refreshBeforeExpiry = num_or (o_refreshBeforeExpiry options) 300000,
       disableTokenRefresh = (o_disableTokenRefresh options = Some True),
       reconnectTimers = [],
       events = [] \<rparr>"

subsection \<open>Reconnection\<close>

definition maxDelay :: nat where
  "maxDelay = 5 * 60 * 1000"

text \<open>
  \<open>scheduleReconnect\<close>: the counter is incremented, the delay is computed from it, and
  \<open>setTimeout\<close> creates one more pending timeout.
\<close>

definition scheduleReconnect :: "CieloConnectionManager \<Rightarrow> CieloConnectionManager" where
  "scheduleReconnect m =
     (let m1 = m\<lparr> reconnectAttempts := reconnectAttempts m + 1 \<rparr>;
          delay = reconnectDelay m1 * 2 ^ (reconnectAttempts m1 - 1);
          actualDelay = min delay maxDelay
      in m1\<lparr> reconnectTimers := reconnectTimers m1 @ [actualDelay] \<rparr>)"

definition stopHealthCheck :: "CieloConnectionManager \<Rightarrow> CieloConnectionManager" where
  "stopHealthCheck m =
     (if healthCheckTimer m \<noteq> None then m\<lparr> healthCheckTimer := None \<rparr> else m)"

definition startHealthCheck :: "CieloConnectionManager \<Rightarrow> CieloConnectionManager" where
  "startHealthCheck m =
     (let m1 = stopHealthCheck m in m1\<lparr> healthCheckTimer := Some (healthCheckInterval m1) \<rparr>)"

text \<open>One run of the interval's callback; it runs only while the interval exists.\<close>

definition healthCheckTick :: "CieloConnectionManager \<Rightarrow> CieloConnectionManager" where
  "healthCheckTick m =
     (if healthCheckTimer m = None then m
      else if \<not> isConnected m then
        (let m1 = stopHealthCheck m in
         if autoReconnect m1 then scheduleReconnect m1 else m1)
      else m)"

definition stopTokenRefresh :: "CieloConnectionManager \<Rightarrow> CieloConnectionManager" where
  "stopTokenRefresh m =
     (if tokenRefreshTimer m \<noteq> None then m\<lparr> tokenRefreshTimer := None \<rparr> else m)"

text \<open>\<open>scheduleTokenRefresh\<close>; \<open>now\<close> is \<open>Date.now()\<close>.\<close>

definition scheduleTokenRefresh :: "CieloConnectionManager \<Rightarrow> int \<Rightarrow> CieloConnectionManager" where
  "scheduleTokenRefresh m now =
     (let m1 = stopTokenRefresh m in
      if disableTokenRefresh m1 then m1
      else
        (case tokenExpiresAt m1 of
           None \<Rightarrow> m1
         | Some t \<Rightarrow>
             if t = 0 then m1
             else
               (let expiresIn = t - now;
                    refreshAt = expiresIn - int (refreshBeforeExpiry m1)
                in if refreshAt \<le> 0 then
                     (if autoReconnect m1 then scheduleReconnect m1 else m1)
                   else m1\<lparr> tokenRefreshTimer := Some refreshAt \<rparr>)))"

text \<open>\<open>handleError\<close>: the error callback given to the API connection.\<close>

definition handleError :: "CieloConnectionManager \<Rightarrow> js_error \<Rightarrow> CieloConnectionManager" where
  "handleError m err =
     (let m2 =
        (if includes_js (message err) ''WebSocket'' \<or> includes_js (message err) ''connection''
         then
           (let m1 = m\<lparr> isConnected := False \<rparr> in
            if autoReconnect m1 then scheduleReconnect m1 else m1)
         else m)
      in m2\<lparr> events := events m2 @ [OnError err] \<rparr>)"

definition disconnect :: "CieloConnectionManager \<Rightarrow> CieloConnectionManager" where
  "disconnect m =
     (let m1 = stopTokenRefresh (stopHealthCheck m);
          m2 = m1\<lparr> isConnected := False, api := None \<rparr>
      in m2\<lparr> events := events m2 @ [OnDisconnected] \<rparr>)"

subsection \<open>Connecting\<close>

text \<open>
  What the outside world answers during one \<open>connect()\<close>: the captcha solver, the login
  request, the directory request, whether the socket opens, and the clock.
\<close>

record connect_env =
  captcha :: "js_error + jsval"
  login :: fetch_result
  deviceInfo :: device_info
  socketOpens :: bool
  dateNow :: int

text \<open>
  \<open>this.api.getExpiresIn() * 1000\<close>: a number is multiplied; \<open>undefined\<close> gives NaN
  (\<open>None\<close>), \<open>null\<close> gives 0, a boolean 0 or 1000. The backend sends a number; the
  coercion of strings, objects and arrays is not modelled (\<open>None\<close>).
\<close>

fun times_1000 :: "jsval \<Rightarrow> int option" where
  "times_1000 (JNum n) = Some (n * 1000)"
| "times_1000 JNull = Some 0"
| "times_1000 (JBool b) = Some (if b then 1000 else 0)"
| "times_1000 v = None"

text \<open>The body of the \<open>try\<close> block up to the last \<open>await\<close>.\<close>

definition connect_try :: "string list \<Rightarrow> connect_env \<Rightarrow> CieloAPIConnection \<times> settle" where
  "connect_try macs env =
     (let api0 = new_CieloAPIConnection True True in
      case establishConnectionWithAutoSolve api0 (captcha env) (login env) of
        Inl e \<Rightarrow> (api0, Rejects e)
      | Inr api1 \<Rightarrow>
          if length macs > 0
          then subscribeToHVACs api1 macs (deviceInfo env) (socketOpens env)
          else (api1, Resolves))"

text \<open>The rest of the \<open>try\<close> block, after the awaits have resolved.\<close>

definition connect_ok :: "CieloConnectionManager \<Rightarrow> int \<Rightarrow> CieloConnectionManager" where
  "connect_ok m now =
     (let m1 = m\<lparr> isConnected := True, reconnectAttempts := 0 \<rparr>;
          m2 = m1\<lparr> tokenExpiresAt :=
                    (case api m1 of None \<Rightarrow> None | Some a \<Rightarrow> times_1000 (getExpiresIn a)) \<rparr>;
          m3 = scheduleTokenRefresh (startHealthCheck m2) now
      in m3\<lparr> events := events m3 @ [OnConnected] \<rparr>)"

text \<open>The \<open>catch\<close> block.\<close>

definition connect_catch ::
  "CieloConnectionManager \<Rightarrow> js_error \<Rightarrow> CieloConnectionManager \<times> settle" where
  "connect_catch m error =
     (let m1 = m\<lparr> isConnected := False \<rparr> in
      if autoReconnect m1 \<and> reconnectAttempts m1 < maxReconnectAttempts m1
      then (scheduleReconnect m1, Resolves)
      else (m1, Rejects error))"

definition connect ::
  "CieloConnectionManager \<Rightarrow> connect_env \<Rightarrow> CieloConnectionManager \<times> settle" where
  "connect m env =
     (case connect_try (macAddresses m) env of
        (a, Resolves) \<Rightarrow> (connect_ok (m\<lparr> api := Some a \<rparr>) (dateNow env), Resolves)
      | (a, Rejects e) \<Rightarrow> connect_catch (m\<lparr> api := Some a \<rparr>) e
      | (a, NeverSettles) \<Rightarrow> (m\<lparr> api := Some a \<rparr>, NeverSettles))"

text \<open>
  The timeout created by \<open>scheduleReconnect\<close> fires: it leaves the pending list and
  calls \<open>connect()\<close>.
\<close>

definition fireReconnect ::
  "CieloConnectionManager \<Rightarrow> nat \<Rightarrow> connect_env \<Rightarrow> CieloConnectionManager \<times> settle" where
  "fireReconnect m i env =
     (if i < length (reconnectTimers m)
      then connect (m\<lparr> reconnectTimers :=
                       take i (reconnectTimers m) @ drop (Suc i) (reconnectTimers m) \<rparr>) env
      else (m, Resolves))"

text \<open>The token timer fires: \<open>disconnect()\<close>, then \<open>connect()\<close>.\<close>

definition fireTokenRefresh ::
  "CieloConnectionManager \<Rightarrow> connect_env \<Rightarrow> CieloConnectionManager \<times> settle" where
  "fireTokenRefresh m env =
     (if tokenRefreshTimer m = None then (m, Resolves) else connect (disconnect m) env)"

text \<open>
  The socket's events, as \<open>#connect\<close> wires them: two listeners of \<open>error\<close> call the
  error callback, one listener of \<open>close\<close> calls it with a new Error.
\<close>

definition socketError :: "CieloConnectionManager \<Rightarrow> js_error \<Rightarrow> CieloConnectionManager" where
  "socketError m err = handleError (handleError m err) err"

definition socketClose :: "CieloConnectionManager \<Rightarrow> CieloConnectionManager" where
  "socketClose m =
     handleError
       (m\<lparr> api := (case api m of None \<Rightarrow> None | Some a \<Rightarrow> Some (a\<lparr> ws := Some WsNotOpen \<rparr>)) \<rparr>)
       (Error ''Connection Closed.'')"

subsection \<open>Looking devices up\<close>

definition getApi :: "CieloConnectionManager \<Rightarrow> js_error + CieloAPIConnection" where
  "getApi m =
     (if \<not> isConnected m then Inl (Error ''Not connected. Call connect() first.'')
      else case api m of
             None \<Rightarrow> Inl (Error ''Not connected. Call connect() first.'')
           | Some a \<Rightarrow> Inr a)"

definition getHvacs :: "CieloConnectionManager \<Rightarrow> js_error + CieloHVAC list" where
  "getHvacs m = (case getApi m of Inl e \<Rightarrow> Inl e | Inr a \<Rightarrow> Inr (hvacs a))"

text \<open>\<open>findHvac\<close>: \<open>Array.prototype.find\<close> returns the first match or \<open>undefined\<close>.\<close>

definition findHvac :: "CieloConnectionManager \<Rightarrow> string \<Rightarrow> js_error + CieloHVAC option" where
  "findHvac m mac =
     (case getHvacs m of
        Inl e \<Rightarrow> Inl e
      | Inr hs \<Rightarrow>
          Inr (find (\<lambda>h. toUpperCase (getMacAddress h) = toUpperCase mac) hs))"

section \<open>Reachable devices, runs and sample data\<close>

text \<open>
  The device objects a program can hold: built by the constructor, then changed by the
  two mutators only (the fields are private).
\<close>

inductive hvac_object :: "CieloHVAC \<Rightarrow> bool" where
  constructed: "new_CieloHVAC mac name appl fw dtv = Inr h \<Longrightarrow> hvac_object h"
| state_updated: "hvac_object h \<Longrightarrow> hvac_object (updateState h p t m f)"
| room_updated: "hvac_object h \<Longrightarrow> hvac_object (updateRoomTemperature h rt)"

text \<open>The command state of a device: power, mode, fan speed, temperature.\<close>

definition commandState :: "CieloHVAC \<Rightarrow> jsval \<times> jsval \<times> jsval \<times> jsval" where
  "commandState h = (power h, mode h, fanSpeed h, temperature h)"

text \<open>What a matching StateUpdate frame does to one device (the body of the loop).\<close>

definition apply_update :: "jsval \<Rightarrow> jsval \<Rightarrow> CieloHVAC \<Rightarrow> CieloHVAC" where
  "apply_update data status hvac =
     (let hvac1 = updateState hvac (getProp status ''power'') (getProp status ''temp'')
                    (getProp status ''mode'') (getProp status ''fanspeed'')
      in if truthy (getProp data ''lat_env_var'')
            \<and> getProp (getProp data ''lat_env_var'') ''temperature'' \<noteq> JUndefined
         then updateRoomTemperature hvac1 (getProp (getProp data ''lat_env_var'') ''temperature'')
         else hvac1)"

definition hvacs_of :: "js_error + CieloAPIConnection \<Rightarrow> CieloHVAC list" where
  "hvacs_of r = (case r of Inl e \<Rightarrow> [] | Inr c \<Rightarrow> hvacs c)"


definition found_mac :: "js_error + CieloHVAC option \<Rightarrow> string option" where
  "found_mac r = (case r of Inl e \<Rightarrow> None | Inr None \<Rightarrow> None | Inr (Some h) \<Rightarrow> Some (getMacAddress h))"

text \<open>Login followed immediately by a refresh with the stored refresh token.\<close>

definition login_then_refresh ::
  "fetch_result \<Rightarrow> fetch_result \<Rightarrow> js_error + CieloAPIConnection" where
  "login_then_refresh lr rr =
     (case establishConnection (new_CieloAPIConnection True True) lr of
        Inl e \<Rightarrow> Inl e
      | Inr c \<Rightarrow> refreshAccessToken c JUndefined rr)"

definition expiry_of :: "js_error + CieloAPIConnection \<Rightarrow> jsval" where
  "expiry_of r = (case r of Inl e \<Rightarrow> JUndefined | Inr c \<Rightarrow> getExpiresIn c)"

definition identity_of :: "js_error + CieloAPIConnection \<Rightarrow> jsval \<times> jsval" where
  "identity_of r = (case r of Inl e \<Rightarrow> (JUndefined, JUndefined) | Inr c \<Rightarrow> (userID c, sessionID c))"

text \<open>\<open>a < b\<close> on two numbers.\<close>

definition js_less :: "jsval \<Rightarrow> jsval \<Rightarrow> bool" where
  "js_less a b = (case (a, b) of (JNum x, JNum y) \<Rightarrow> x < y | _ \<Rightarrow> False)"

fun is_rejected :: "settle \<Rightarrow> bool" where
  "is_rejected (Rejects e) = True"
| "is_rejected s = False"

text \<open>
  A run of reconnect attempts: each time the single pending reconnect timeout fires and
  \<open>connect()\<close> runs against the next environment.
\<close>

fun failed_attempts :: "CieloConnectionManager \<Rightarrow> connect_env list \<Rightarrow> CieloConnectionManager" where
  "failed_attempts m [] = m"
| "failed_attempts m (env # envs) = failed_attempts (fst (fireReconnect m 0 env)) envs"

subsection \<open>Sample data\<close>

definition sample_action :: "string \<Rightarrow> string \<Rightarrow> string \<Rightarrow> string \<Rightarrow> jsval" where
  "sample_action p t m f =
     JObj [(''power'', JStr p), (''temp'', JStr t), (''mode'', JStr m), (''fanspeed'', JStr f)]"

definition sample_entry :: "string \<Rightarrow> jsval \<Rightarrow> device_entry" where
  "sample_entry mac latestAction =
     \<lparr> e_macAddress = mac, e_deviceName = JStr ''Living Room'', e_applianceId = JNum 1234,
       e_fwVersion = JStr ''2.4.2'', e_deviceTypeVersion = JStr ''BP01'',
       e_latestAction = latestAction, e_latEnv = JObj [(''temp'', JNum 72)] \<rparr>"

definition sample_hvac :: CieloHVAC where
  "sample_hvac = hvac_fields ''AABBCCDDEEFF'' (JStr ''Living Room'') (JNum 1234) (JStr ''2.4.2'') ''BP01''"

definition sample_device :: "string \<Rightarrow> CieloHVAC" where
  "sample_device dtv =
     \<lparr> power = JStr ''off'', temperature = JNum 75, mode = JStr ''auto'', fanSpeed = JStr ''auto'',
       roomTemperature = JNum 75, deviceName = JStr ''Living Room'', macAddress = ''AABBCCDDEEFF'',
       deviceTypeVersion = dtv, applianceID = JNum 1234, fwVersion = JStr ''2.4.2'' \<rparr>"

definition subscribed :: "device_entry list \<Rightarrow> CieloAPIConnection" where
  "subscribed ds = fst (subscribeToHVACs (new_CieloAPIConnection True True) [] (DeviceInfo ds) True)"

definition state_update :: "jsval \<Rightarrow> jsval \<Rightarrow> jsval" where
  "state_update mac action =
     JObj [(''message_type'', JStr ''StateUpdate''), (''mac_address'', mac), (''action'', action)]"

definition sample_login :: "int \<Rightarrow> fetch_result" where
  "sample_login expires =
     FetchJSON 200 (JObj [(''status'', JNum 200), (''message'', JStr ''SUCCESS''),
       (''data'', JObj [(''user'', JObj [(''sessionId'', JStr ''s-1''), (''userId'', JStr ''u-1''),
          (''accessToken'', JStr ''at-1''), (''refreshToken'', JStr ''rt-1''),
          (''expiresIn'', JNum expires)])])])"

definition sample_refresh_body :: "int \<Rightarrow> jsval" where
  "sample_refresh_body expires =
     JObj [(''data'', JObj [(''accessToken'', JStr ''at-2''), (''refreshToken'', JStr ''rt-2''),
        (''expiresIn'', JNum expires)])]"

definition sample_options :: "string list \<Rightarrow> manager_options" where
  "sample_options macs =
     \<lparr> o_macAddresses = Some macs, o_maxReconnectAttempts = None, o_reconnectDelay = None,
       o_autoReconnect = None, o_healthCheckInterval = None, o_refreshBeforeExpiry = None,
       o_disableTokenRefresh = None \<rparr>"

definition sample_env :: "device_entry list \<Rightarrow> connect_env" where
  "sample_env ds =
     \<lparr> captcha = Inr (JStr ''solved''), login = sample_login 1700003600,
       deviceInfo = DeviceInfo ds, socketOpens = True, dateNow = 1700000000000 \<rparr>"

definition failing_env :: connect_env where
  "failing_env =
     \<lparr> captcha = Inl (Error ''Captcha solve timed out''), login = FetchError (Error ''not sent''),
       deviceInfo = NoDeviceInfo, socketOpens = False, dateNow = 1700000000000 \<rparr>"

definition connected_manager :: "string list \<Rightarrow> device_entry list \<Rightarrow> CieloConnectionManager" where
  "connected_manager macs ds =
     fst (connect (new_CieloConnectionManager (sample_options macs)) (sample_env ds))"

section \<open>Evaluation and helper lemmas\<close>

lemmas sample_defs = sample_action_def sample_entry_def sample_hvac_def subscribed_def
  state_update_def sample_login_def sample_refresh_body_def sample_options_def sample_env_def
  failing_env_def connected_manager_def

lemmas api_defs = establishConnection_def getAccessTokenAndSessionId_def
  establishConnectionWithAutoSolve_def nullish_def subscribeToHVACs_def subscribe_device_def
  new_CieloHVAC_def valid_deviceTypeVersion_def startsWith_def hvac_fields_def updateState_def
  updateRoomTemperature_def Let_def onMessage_def getMacAddress_def new_CieloAPIConnection_def
  getExpiresIn_def dict_set_def dict_get_def empty_dictionary_def Object_prototype_get_def
  Object_prototype_functions_def oldPower_of_def js_or_def

lemmas manager_defs = connect_def connect_try_def connect_ok_def connect_catch_def
  new_CieloConnectionManager_def num_or_def startHealthCheck_def stopHealthCheck_def
  scheduleTokenRefresh_def stopTokenRefresh_def scheduleReconnect_def handleError_def
  healthCheckTick_def maxDelay_def getApi_def getHvacs_def findHvac_def fireReconnect_def

lemma valid_deviceTypeVersion_nonempty: "valid_deviceTypeVersion s \<Longrightarrow> s \<noteq> []"
  by (auto simp: valid_deviceTypeVersion_def startsWith_def)

lemma new_CieloHVAC_valid:
  "new_CieloHVAC mac name appl fw dtv = Inr h \<Longrightarrow> valid_deviceTypeVersion (deviceTypeVersion h)"
  by (auto simp: new_CieloHVAC_def hvac_fields_def valid_deviceTypeVersion_def startsWith_def
           split: if_splits jsval.splits)

lemma hvac_object_valid: "hvac_object h \<Longrightarrow> valid_deviceTypeVersion (deviceTypeVersion h)"
  by (induction rule: hvac_object.induct)
     (simp_all add: new_CieloHVAC_valid updateState_def updateRoomTemperature_def)

lemma payload_deviceTypeVersion:
  "getProp (snd (buildCommandPayload c h a v ts)) ''deviceTypeVersion'' =
     (if deviceTypeVersion h = [] then JStr ''BI01'' else JStr (deviceTypeVersion h))"
  by (simp add: buildCommandPayload_def Let_def js_or_def getDeviceTypeVersion_def)


lemma dict_proto_assignment:
  "dict_set empty_dictionary ''__proto__'' (JStr ''on'') = empty_dictionary"
  "dict_get empty_dictionary ''__proto__'' = DataValue (JObj [])"
  "replacedProto (dict_set empty_dictionary ''__proto__'' (JObj kvs)) = Some (JObj kvs)"
  "dict_get (dict_set empty_dictionary ''__proto__'' (JObj [(''AABBCCDDEEFF'', JStr ''on'')]))
     ''AABBCCDDEEFF'' = DataValue (JStr ''on'')"
  "dict_get (dict_set (dict_set empty_dictionary ''__proto__'' JNull) ''__proto__'' (JStr ''on''))
     ''__proto__'' = DataValue (JStr ''on'')"
  by (simp_all add: dict_set_def dict_get_def empty_dictionary_def proto_setter_reached_def
        Object_prototype_get_def)

lemma forEach_hvac_no_match:
  "\<forall>h\<in>set hs. \<not> strict_eq (JStr (getMacAddress h)) thisMac \<Longrightarrow>
   forEach_hvac data status thisMac hs prev = (hs, prev)"
  by (induction hs arbitrary: prev) (simp_all add: Let_def)

lemma forEach_hvac_map:
  "fst (forEach_hvac data status thisMac hs prev) =
     map (\<lambda>h. if strict_eq (JStr (getMacAddress h)) thisMac then apply_update data status h else h) hs"
  by (induction hs arbitrary: prev) (simp_all add: Let_def apply_update_def)

lemma commandState_apply_update:
  "commandState (apply_update data status h) =
     (getProp status ''power'', getProp status ''mode'', getProp status ''fanspeed'',
      getProp status ''temp'')"
  by (simp add: apply_update_def commandState_def updateState_def updateRoomTemperature_def Let_def)

lemma macAddress_apply_update: "getMacAddress (apply_update data status h) = getMacAddress h"
  by (simp add: apply_update_def getMacAddress_def updateState_def updateRoomTemperature_def Let_def)

lemma onMessage_state_update:
  assumes "\<not> nullish data" "getProp data ''message_type'' = JStr ''StateUpdate''"
    "truthy (getProp data ''action'')" "typeof (getProp data ''action'') = ''object''"
  shows "\<exists>c'. onMessage c data = Inr c' \<and>
     hvacs c' = map (\<lambda>h. if strict_eq (JStr (getMacAddress h)) (getProp data ''mac_address'')
                          then apply_update data (getProp data ''action'') h else h) (hvacs c)"
  using assms by (simp add: onMessage_def Let_def forEach_hvac_map)

lemma find_first_match:
  assumes "h \<in> set hs" "P h"
  shows "\<exists>h'. find P hs = Some h' \<and> h' \<in> set hs \<and> P h'"
  using assms by (induction hs) auto

lemma scheduleReconnect_fields:
  "reconnectAttempts (scheduleReconnect m) = reconnectAttempts m + 1"
  "reconnectTimers (scheduleReconnect m) =
     reconnectTimers m @ [min (reconnectDelay m * 2 ^ reconnectAttempts m) maxDelay]"
  "reconnectDelay (scheduleReconnect m) = reconnectDelay m"
  "autoReconnect (scheduleReconnect m) = autoReconnect m"
  "maxReconnectAttempts (scheduleReconnect m) = maxReconnectAttempts m"
  "macAddresses (scheduleReconnect m) = macAddresses m"
  by (simp_all add: scheduleReconnect_def Let_def)

lemma connect_rejected:
  assumes "is_rejected (snd (connect_try (macAddresses m) env))"
    "autoReconnect m" "reconnectAttempts m < maxReconnectAttempts m"
  shows "\<exists>a. fst (connect m env) = scheduleReconnect (m\<lparr> api := Some a, isConnected := False \<rparr>)"
proof -
  obtain a s where as: "connect_try (macAddresses m) env = (a, s)"
    by (cases "connect_try (macAddresses m) env")
  with assms(1) obtain e where "s = Rejects e" by (cases s) auto
  with as assms(2,3) show ?thesis
    by (auto simp: connect_def connect_catch_def Let_def)
qed

lemma fire_rejected:
  assumes "is_rejected (snd (connect_try (macAddresses m) env))"
    "autoReconnect m" "reconnectAttempts m < maxReconnectAttempts m" "reconnectTimers m = [d]"
  shows "reconnectTimers (fst (fireReconnect m 0 env)) =
           [min (reconnectDelay m * 2 ^ reconnectAttempts m) maxDelay]
    \<and> reconnectAttempts (fst (fireReconnect m 0 env)) = reconnectAttempts m + 1
    \<and> reconnectDelay (fst (fireReconnect m 0 env)) = reconnectDelay m
    \<and> autoReconnect (fst (fireReconnect m 0 env))
    \<and> maxReconnectAttempts (fst (fireReconnect m 0 env)) = maxReconnectAttempts m
    \<and> macAddresses (fst (fireReconnect m 0 env)) = macAddresses m"
proof -
  let ?m = "m\<lparr> reconnectTimers := [] \<rparr>"
  have F: "fireReconnect m 0 env = connect ?m env"
    using assms(4) by (simp add: fireReconnect_def)
  obtain a where "fst (connect ?m env) = scheduleReconnect (?m\<lparr> api := Some a, isConnected := False \<rparr>)"
    using connect_rejected [of ?m env] assms by auto
  with F assms(2) show ?thesis by (simp add: scheduleReconnect_fields)
qed

lemma failed_attempts_delay:
  assumes "\<forall>env\<in>set envs. is_rejected (snd (connect_try (macAddresses m) env))"
    "autoReconnect m" "reconnectAttempts m + length envs \<le> maxReconnectAttempts m"
    "reconnectTimers m = [min (reconnectDelay m * 2 ^ (reconnectAttempts m - 1)) maxDelay]"
  shows "reconnectTimers (failed_attempts m envs) =
           [min (reconnectDelay m * 2 ^ (reconnectAttempts m + length envs - 1)) maxDelay]
       \<and> reconnectAttempts (failed_attempts m envs) = reconnectAttempts m + length envs
       \<and> reconnectDelay (failed_attempts m envs) = reconnectDelay m
       \<and> macAddresses (failed_attempts m envs) = macAddresses m"
  using assms
proof (induction envs arbitrary: m)
  case Nil
  then show ?case by simp
next
  case (Cons env envs)
  let ?m' = "fst (fireReconnect m 0 env)"
  have step: "reconnectTimers ?m' = [min (reconnectDelay m * 2 ^ reconnectAttempts m) maxDelay]
    \<and> reconnectAttempts ?m' = reconnectAttempts m + 1
    \<and> reconnectDelay ?m' = reconnectDelay m
    \<and> autoReconnect ?m'
    \<and> maxReconnectAttempts ?m' = maxReconnectAttempts m
    \<and> macAddresses ?m' = macAddresses m"
    using fire_rejected [of m env] Cons.prems by simp
  have "reconnectTimers (failed_attempts ?m' envs) =
           [min (reconnectDelay ?m' * 2 ^ (reconnectAttempts ?m' + length envs - 1)) maxDelay]
       \<and> reconnectAttempts (failed_attempts ?m' envs) = reconnectAttempts ?m' + length envs
       \<and> reconnectDelay (failed_attempts ?m' envs) = reconnectDelay ?m'
       \<and> macAddresses (failed_attempts ?m' envs) = macAddresses ?m'"
    using Cons.IH [of ?m'] step Cons.prems by simp
  with step show ?case by simp
qed

lemma backoff_monotone:
  "min (b * 2 ^ k) maxDelay \<le> min (b * 2 ^ Suc k) maxDelay"
  by (simp add: min_le_iff_disj)

lemma connect_resolved:
  assumes "snd (connect_try (macAddresses m) env) = Resolves"
  shows "\<exists>a. fst (connect m env) = connect_ok (m\<lparr> api := Some a \<rparr>) (dateNow env)"
proof -
  obtain a s where as: "connect_try (macAddresses m) env = (a, s)"
    by (cases "connect_try (macAddresses m) env")
  with assms show ?thesis by (auto simp: connect_def)
qed

lemma scheduleTokenRefresh_reconnect:
  "reconnectDelay (scheduleTokenRefresh m t) = reconnectDelay m
   \<and> ((reconnectAttempts (scheduleTokenRefresh m t) = reconnectAttempts m
        \<and> reconnectTimers (scheduleTokenRefresh m t) = reconnectTimers m)
      \<or> (reconnectAttempts (scheduleTokenRefresh m t) = reconnectAttempts m + 1
        \<and> reconnectTimers (scheduleTokenRefresh m t) =
            reconnectTimers m @ [min (reconnectDelay m * 2 ^ reconnectAttempts m) maxDelay]))"
  by (simp add: scheduleTokenRefresh_def stopTokenRefresh_def Let_def scheduleReconnect_fields
        split: option.splits)

lemma connect_ok_reset:
  "reconnectDelay (connect_ok m t) = reconnectDelay m
   \<and> ((reconnectAttempts (connect_ok m t) = 0 \<and> reconnectTimers (connect_ok m t) = reconnectTimers m)
      \<or> (reconnectAttempts (connect_ok m t) = 1
          \<and> reconnectTimers (connect_ok m t) = reconnectTimers m @ [min (reconnectDelay m) maxDelay]))"
proof -
  let ?m2 = "startHealthCheck (m\<lparr> isConnected := True, reconnectAttempts := 0,
      tokenExpiresAt := (case api m of None \<Rightarrow> None | Some a \<Rightarrow> times_1000 (getExpiresIn a)) \<rparr>)"
  have m2: "reconnectDelay ?m2 = reconnectDelay m" "reconnectAttempts ?m2 = 0"
    "reconnectTimers ?m2 = reconnectTimers m"
    by (simp_all add: startHealthCheck_def stopHealthCheck_def Let_def)
  have ok: "connect_ok m t = (scheduleTokenRefresh ?m2 t)\<lparr> events := events (scheduleTokenRefresh ?m2 t) @ [OnConnected] \<rparr>"
    by (simp add: connect_ok_def Let_def)
  show ?thesis
    using scheduleTokenRefresh_reconnect [of ?m2 t] m2 unfolding ok by auto
qed

section \<open>Reconnection: pending attempts (C1)\<close>

text \<open>
  Claim C1: at most one reconnect attempt is pending at any time; a second trigger while
  one is pending does not create a second pending attempt.

  \<open>scheduleReconnect\<close> creates a timeout on every call and keeps no handle, unlike
  \<open>startHealthCheck\<close> and \<open>scheduleTokenRefresh\<close>, which clear their timer first. On a
  connected manager with the default options, a socket error reported to \<open>handleError\<close>
  followed by the next health check leaves two reconnect timeouts pending, of 5000 ms
  and 10000 ms.
\<close>

theorem two_triggers_two_pending_reconnects:
  "reconnectTimers
     (healthCheckTick
        (handleError
           (connected_manager [''AABBCCDDEEFF'']
              [sample_entry ''AABBCCDDEEFF'' (sample_action ''off'' ''72'' ''cool'' ''auto'')])
           (Error ''WebSocket was closed before the connection was established'')))
   = [5000, 10000]"
  by (simp add: sample_defs api_defs manager_defs)

section \<open>Device identity (C2)\<close>

text \<open>
  Claim C2, as amended: looking a device up through the manager (\<open>findHvac\<close>) compares
  the upper-cased MAC strings and nothing else is normalised, so any stored device whose
  upper-cased MAC equals the upper-cased argument is found; and an inbound StateUpdate
  frame whose \<open>mac_address\<close> is the same string as a device's stored MAC is applied to
  that device: its command state becomes the frame's \<open>action\<close> values.
\<close>

theorem mac_matching_amended:
  "(getApi m = Inr a \<and> h \<in> set (hvacs a) \<and> toUpperCase (getMacAddress h) = toUpperCase mac \<longrightarrow>
      (\<exists>h'. findHvac m mac = Inr (Some h') \<and> h' \<in> set (hvacs a)
            \<and> toUpperCase (getMacAddress h') = toUpperCase mac))
   \<and> (\<not> nullish data \<and> getProp data ''message_type'' = JStr ''StateUpdate''
       \<and> truthy (getProp data ''action'') \<and> typeof (getProp data ''action'') = ''object''
       \<and> i < length (hvacs c)
       \<and> getProp data ''mac_address'' = JStr (getMacAddress (hvacs c ! i)) \<longrightarrow>
      (\<exists>c'. onMessage c data = Inr c' \<and> length (hvacs c') = length (hvacs c)
            \<and> getMacAddress (hvacs c' ! i) = getMacAddress (hvacs c ! i)
            \<and> commandState (hvacs c' ! i) =
                (getProp (getProp data ''action'') ''power'', getProp (getProp data ''action'') ''mode'',
                 getProp (getProp data ''action'') ''fanspeed'', getProp (getProp data ''action'') ''temp'')))"
proof (intro conjI impI)
  assume A: "getApi m = Inr a \<and> h \<in> set (hvacs a) \<and> toUpperCase (getMacAddress h) = toUpperCase mac"
  then have "\<exists>h'. find (\<lambda>h. toUpperCase (getMacAddress h) = toUpperCase mac) (hvacs a) = Some h'
      \<and> h' \<in> set (hvacs a) \<and> toUpperCase (getMacAddress h') = toUpperCase mac"
    using find_first_match [of h "hvacs a" "\<lambda>h. toUpperCase (getMacAddress h) = toUpperCase mac"]
    by simp
  with A show "\<exists>h'. findHvac m mac = Inr (Some h') \<and> h' \<in> set (hvacs a)
            \<and> toUpperCase (getMacAddress h') = toUpperCase mac"
    by (simp add: findHvac_def getHvacs_def)
next
  assume B: "\<not> nullish data \<and> getProp data ''message_type'' = JStr ''StateUpdate''
       \<and> truthy (getProp data ''action'') \<and> typeof (getProp data ''action'') = ''object''
       \<and> i < length (hvacs c)
       \<and> getProp data ''mac_address'' = JStr (getMacAddress (hvacs c ! i))"
  then obtain c' where C: "onMessage c data = Inr c'"
     "hvacs c' = map (\<lambda>h. if strict_eq (JStr (getMacAddress h)) (getProp data ''mac_address'')
                          then apply_update data (getProp data ''action'') h else h) (hvacs c)"
    using onMessage_state_update [of data c] by blast
  from B C(2) have "hvacs c' ! i = apply_update data (getProp data ''action'') (hvacs c ! i)"
    by simp
  with C show "\<exists>c'. onMessage c data = Inr c' \<and> length (hvacs c') = length (hvacs c)
            \<and> getMacAddress (hvacs c' ! i) = getMacAddress (hvacs c ! i)
            \<and> commandState (hvacs c' ! i) =
                (getProp (getProp data ''action'') ''power'', getProp (getProp data ''action'') ''mode'',
                 getProp (getProp data ''action'') ''fanspeed'', getProp (getProp data ''action'') ''temp'')"
    by (simp add: commandState_apply_update macAddress_apply_update)
qed

text \<open>
  A device stored as \<open>c45bbec42467\<close> is found by \<open>C45BBEC42467\<close>, and a frame carrying
  the stored string updates it.
\<close>

theorem mac_matching_amended_witness:
  "found_mac (findHvac
      (connected_manager [''c45bbec42467'']
         [sample_entry ''c45bbec42467'' (sample_action ''off'' ''72'' ''cool'' ''auto'')])
      ''C45BBEC42467'') = Some ''c45bbec42467''
   \<and> map commandState (hvacs_of (onMessage
        (subscribed [sample_entry ''c45bbec42467'' (sample_action ''off'' ''72'' ''cool'' ''auto'')])
        (state_update (JStr ''c45bbec42467'') (sample_action ''on'' ''68'' ''heat'' ''high''))))
      = [(JStr ''on'', JStr ''heat'', JStr ''high'', JStr ''68'')]"
proof -
  let ?e = "sample_entry ''c45bbec42467'' (sample_action ''off'' ''72'' ''cool'' ''auto'')"
  let ?m = "connected_manager [''c45bbec42467''] [?e]"
  let ?c = "subscribed [?e]"
  let ?d = "state_update (JStr ''c45bbec42467'') (sample_action ''on'' ''68'' ''heat'' ''high'')"
  obtain a where a: "getApi ?m = Inr a"
    by (simp add: sample_defs api_defs manager_defs)
  obtain h where h: "hvacs a = [h]" "getMacAddress h = ''c45bbec42467''"
    using a by (auto simp: sample_defs api_defs manager_defs)
  have up: "toUpperCase (getMacAddress h) = toUpperCase ''C45BBEC42467''"
    by (simp add: h toUpperCase_def upper_char_def)
  have hd: "\<not> nullish ?d \<and> getProp ?d ''message_type'' = JStr ''StateUpdate''
       \<and> truthy (getProp ?d ''action'') \<and> typeof (getProp ?d ''action'') = ''object''
       \<and> 0 < length (hvacs ?c)
       \<and> getProp ?d ''mac_address'' = JStr (getMacAddress (hvacs ?c ! 0))"
    by (simp add: sample_defs api_defs)
  have len: "length (hvacs ?c) = 1"
    by (simp add: sample_defs api_defs)
  note T = mac_matching_amended [of ?m a h "''C45BBEC42467''" ?d 0 ?c]
  from T a h up obtain h' where f: "findHvac ?m ''C45BBEC42467'' = Inr (Some h')" "h' \<in> set (hvacs a)"
    by auto
  with h have "found_mac (findHvac ?m ''C45BBEC42467'') = Some ''c45bbec42467''"
    by (simp add: found_mac_def)
  moreover from T hd obtain c' where c': "onMessage ?c ?d = Inr c'" "length (hvacs c') = length (hvacs ?c)"
     "commandState (hvacs c' ! 0) =
        (getProp (getProp ?d ''action'') ''power'', getProp (getProp ?d ''action'') ''mode'',
         getProp (getProp ?d ''action'') ''fanspeed'', getProp (getProp ?d ''action'') ''temp'')"
    by blast
  from c'(2) len obtain x where x: "hvacs c' = [x]"
    by (cases "hvacs c'") auto
  with c'(3) have "commandState x = (JStr ''on'', JStr ''heat'', JStr ''high'', JStr ''68'')"
    by (simp add: state_update_def sample_action_def)
  with c'(1) x have "map commandState (hvacs_of (onMessage ?c ?d))
      = [(JStr ''on'', JStr ''heat'', JStr ''high'', JStr ''68'')]"
    by (simp add: hvacs_of_def)
  ultimately show ?thesis by blast
qed

text \<open>
  The claim as stated fails: for a device created from the directory entry with MAC
  \<open>c4:5b:be:c4:24:67\<close>, a StateUpdate frame carrying \<open>C45BBEC42467\<close> leaves the command
  state as it was, and \<open>findHvac\<close> with \<open>C45BBEC42467\<close> finds no device.
\<close>

theorem mac_matching_counterexample:
  "map commandState (hvacs_of (onMessage
      (subscribed [sample_entry ''c4:5b:be:c4:24:67'' (sample_action ''off'' ''72'' ''cool'' ''auto'')])
      (state_update (JStr ''C45BBEC42467'') (sample_action ''on'' ''68'' ''heat'' ''high''))))
    = [(JStr ''off'', JStr ''cool'', JStr ''auto'', JStr ''72'')]
   \<and> findHvac (connected_manager [''c4:5b:be:c4:24:67'']
         [sample_entry ''c4:5b:be:c4:24:67'' (sample_action ''off'' ''72'' ''cool'' ''auto'')])
       ''C45BBEC42467'' = Inr None"
  by (simp add: sample_defs api_defs manager_defs hvacs_of_def commandState_def
        toUpperCase_def upper_char_def)

section \<open>Partial inbound updates (C3)\<close>

text \<open>
  Claim C3: applying a partial update overwrites only the fields present in it; an update
  holding only \<open>power: "on"\<close> leaves mode \<open>cool\<close>, fan speed and temperature unchanged.

  \<open>updateState\<close> assigns all four fields from the frame's \<open>action\<close>, without the test
  for \<open>undefined\<close> that the room temperature gets: for a device in state
  off / cool / auto / 72, the frame with action \<open>{power: "on"}\<close> leaves mode, fan speed
  and temperature \<open>undefined\<close>.
\<close>

theorem partial_update_clears_absent_fields:
  "map commandState (hvacs_of (onMessage
      (subscribed [sample_entry ''AABBCCDDEEFF'' (sample_action ''off'' ''72'' ''cool'' ''auto'')])
      (state_update (JStr ''AABBCCDDEEFF'') (JObj [(''power'', JStr ''on'')]))))
   = [(JStr ''on'', JUndefined, JUndefined, JUndefined)]"
  by (simp add: sample_defs api_defs hvacs_of_def commandState_def)

section \<open>The command payload (C4, C5)\<close>




text \<open>
  Claim C5: in every outbound payload the temperature inside \<open>actions\<close> is a string.

  Only the value of a temperature command is converted; for any other command the stored
  temperature is passed through, and a device holds the number 75
  (\<open>DEFAULT_TEMPERATURE\<close>) until an update replaces it. For a device just constructed,
  the payload of the command power \<open>on\<close> has the number 75 as \<open>actions.temp\<close>; the
  payload of the command temp 72 has the string \<open>72\<close> there and the number 72 as
  \<open>actionValue\<close>.
\<close>

theorem default_temperature_sent_as_number:
  "new_CieloHVAC ''AABBCCDDEEFF'' (JStr ''Living Room'') (JNum 1234) (JStr ''2.4.2'') (JStr ''BP01'')
     = Inr sample_hvac
   \<and> getProp (getProp (snd (buildCommandPayload (new_CieloAPIConnection True True) sample_hvac
        ''power'' (JStr ''on'') 1700000000)) ''actions'') ''temp'' = JNum 75
   \<and> typeof (getProp (getProp (snd (buildCommandPayload (new_CieloAPIConnection True True)
        sample_hvac ''power'' (JStr ''on'') 1700000000)) ''actions'') ''temp'') = ''number''
   \<and> getProp (getProp (snd (buildCommandPayload (new_CieloAPIConnection True True) sample_hvac
        ''temp'' (JNum 72) 1700000000)) ''actions'') ''temp'' = JStr ''72''
   \<and> getProp (snd (buildCommandPayload (new_CieloAPIConnection True True) sample_hvac
        ''temp'' (JNum 72) 1700000000)) ''actionValue'' = JNum 72"
  by (simp add: sample_defs api_defs buildCommandPayload_def buildCommand_def getTemperature_def
        DEFAULT_TEMPERATURE_def string_of_int_def string_of_nat.simps digit_char_def)

section \<open>Reconnect backoff (C6)\<close>

text \<open>
  Claim C6: after n consecutive failed connection attempts the pending reconnect delay is
  min (base * 2^(n-1)) (maximum delay), the delays never decrease, and a successful
  reconnect resets the counter, so that the next delay scheduled is the first of the
  sequence again, min base (maximum delay), which is base when base is at most the
  maximum. The run starts from a manager with no attempt counted and nothing pending,
  with automatic reconnection on, and stays within \<open>maxReconnectAttempts\<close> (beyond it
  \<open>connect()\<close> raises and schedules nothing). Whatever triggers it, a call of
  \<open>scheduleReconnect\<close> with k attempts counted schedules min (base * 2^k) (maximum delay).
\<close>

theorem reconnect_backoff:
  assumes auto: "autoReconnect m"
    and zero: "reconnectAttempts m = 0"
    and none: "reconnectTimers m = []"
    and rej: "\<forall>env\<in>set (env0 # envs). is_rejected (snd (connect_try (macAddresses m) env))"
    and bound: "Suc (length envs) \<le> maxReconnectAttempts m"
  shows "reconnectTimers (failed_attempts (fst (connect m env0)) envs)
           = [min (reconnectDelay m * 2 ^ length envs) maxDelay]
    \<and> reconnectAttempts (failed_attempts (fst (connect m env0)) envs) = Suc (length envs)
    \<and> (\<forall>k. min (reconnectDelay m * 2 ^ k) maxDelay \<le> min (reconnectDelay m * 2 ^ Suc k) maxDelay)
    \<and> reconnectTimers (scheduleReconnect m') =
        reconnectTimers m' @ [min (reconnectDelay m' * 2 ^ reconnectAttempts m') maxDelay]
    \<and> (snd (connect_try (macAddresses m) env1) = Resolves \<longrightarrow>
         (reconnectAttempts (fst (fireReconnect (failed_attempts (fst (connect m env0)) envs) 0 env1)) = 0
            \<and> reconnectTimers (fst (fireReconnect (failed_attempts (fst (connect m env0)) envs) 0 env1)) = []
            \<and> reconnectTimers (scheduleReconnect
                 (fst (fireReconnect (failed_attempts (fst (connect m env0)) envs) 0 env1)))
                = [min (reconnectDelay m) maxDelay])
         \<or> (reconnectAttempts (fst (fireReconnect (failed_attempts (fst (connect m env0)) envs) 0 env1)) = 1
            \<and> reconnectTimers (fst (fireReconnect (failed_attempts (fst (connect m env0)) envs) 0 env1))
                = [min (reconnectDelay m) maxDelay]))"
proof -
  let ?m1 = "fst (connect m env0)"
  let ?mf = "failed_attempts ?m1 envs"
  obtain a where m1: "?m1 = scheduleReconnect (m\<lparr> api := Some a, isConnected := False \<rparr>)"
    using connect_rejected [of m env0] auto zero rej bound by auto
  have f1: "reconnectTimers ?m1 = [min (reconnectDelay ?m1 * 2 ^ (reconnectAttempts ?m1 - 1)) maxDelay]"
    "reconnectAttempts ?m1 = 1" "reconnectDelay ?m1 = reconnectDelay m" "autoReconnect ?m1"
    "maxReconnectAttempts ?m1 = maxReconnectAttempts m" "macAddresses ?m1 = macAddresses m"
    unfolding m1 using auto zero none by (simp_all add: scheduleReconnect_fields)
  have run: "reconnectTimers ?mf = [min (reconnectDelay ?m1 * 2 ^ (reconnectAttempts ?m1 + length envs - 1)) maxDelay]
       \<and> reconnectAttempts ?mf = reconnectAttempts ?m1 + length envs
       \<and> reconnectDelay ?mf = reconnectDelay ?m1
       \<and> macAddresses ?mf = macAddresses ?m1"
    using failed_attempts_delay [of envs ?m1] f1 rej bound by simp
  have A: "reconnectTimers ?mf = [min (reconnectDelay m * 2 ^ length envs) maxDelay]"
    using run f1 by simp
  have B: "reconnectAttempts ?mf = Suc (length envs)"
    using run f1 by simp
  have C: "\<forall>k. min (reconnectDelay m * 2 ^ k) maxDelay \<le> min (reconnectDelay m * 2 ^ Suc k) maxDelay"
    using backoff_monotone by blast
  have D: "(reconnectAttempts (fst (fireReconnect ?mf 0 env1)) = 0
            \<and> reconnectTimers (fst (fireReconnect ?mf 0 env1)) = []
            \<and> reconnectTimers (scheduleReconnect (fst (fireReconnect ?mf 0 env1)))
                = [min (reconnectDelay m) maxDelay])
         \<or> (reconnectAttempts (fst (fireReconnect ?mf 0 env1)) = 1
            \<and> reconnectTimers (fst (fireReconnect ?mf 0 env1)) = [min (reconnectDelay m) maxDelay])"
    if res: "snd (connect_try (macAddresses m) env1) = Resolves"
  proof -
    let ?m0 = "?mf\<lparr> reconnectTimers := [] \<rparr>"
    have F: "fireReconnect ?mf 0 env1 = connect ?m0 env1"
      using A by (simp add: fireReconnect_def)
    have "snd (connect_try (macAddresses ?m0) env1) = Resolves"
      using res run f1 by simp
    then obtain b where ok: "fst (connect ?m0 env1) = connect_ok (?m0\<lparr> api := Some b \<rparr>) (dateNow env1)"
      using connect_resolved [of ?m0 env1] by blast
    have d: "reconnectDelay (?m0\<lparr> api := Some b \<rparr>) = reconnectDelay m"
      "reconnectTimers (?m0\<lparr> api := Some b \<rparr>) = []"
      using run f1 by simp_all
    show ?thesis
      using connect_ok_reset [of "?m0\<lparr> api := Some b \<rparr>" "dateNow env1"] d
      unfolding F ok by (auto simp: scheduleReconnect_fields)
  qed
  have E: "reconnectTimers (scheduleReconnect m') =
        reconnectTimers m' @ [min (reconnectDelay m' * 2 ^ reconnectAttempts m') maxDelay]"
    by (rule scheduleReconnect_fields)
  from A B C D E show ?thesis by blast
qed

text \<open>
  With the default options (base 5000 ms, at most 5 attempts), three failures in a row
  leave a reconnect pending after 20000 ms; the attempt that then succeeds resets the
  counter, and the next reconnect is scheduled after 5000 ms.
\<close>

theorem reconnect_backoff_witness:
  "autoReconnect (new_CieloConnectionManager (sample_options [''AABBCCDDEEFF'']))
   \<and> reconnectAttempts (new_CieloConnectionManager (sample_options [''AABBCCDDEEFF''])) = 0
   \<and> reconnectTimers (new_CieloConnectionManager (sample_options [''AABBCCDDEEFF''])) = []
   \<and> is_rejected (snd (connect_try [''AABBCCDDEEFF''] failing_env))
   \<and> reconnectTimers (failed_attempts
        (fst (connect (new_CieloConnectionManager (sample_options [''AABBCCDDEEFF''])) failing_env))
        [failing_env, failing_env]) = [20000]
   \<and> reconnectAttempts (failed_attempts
        (fst (connect (new_CieloConnectionManager (sample_options [''AABBCCDDEEFF''])) failing_env))
        [failing_env, failing_env]) = 3
   \<and> reconnectTimers (scheduleReconnect (fst (fireReconnect
        (failed_attempts
           (fst (connect (new_CieloConnectionManager (sample_options [''AABBCCDDEEFF''])) failing_env))
           [failing_env, failing_env])
        0
        (sample_env [sample_entry ''AABBCCDDEEFF'' (sample_action ''off'' ''72'' ''cool'' ''auto'')]))))
      = [5000]"
proof -
  let ?m = "new_CieloConnectionManager (sample_options [''AABBCCDDEEFF''])"
  let ?ok = "sample_env [sample_entry ''AABBCCDDEEFF'' (sample_action ''off'' ''72'' ''cool'' ''auto'')]"
  have fields: "autoReconnect ?m" "reconnectAttempts ?m = 0" "reconnectTimers ?m = []"
    "macAddresses ?m = [''AABBCCDDEEFF'']" "reconnectDelay ?m = 5000" "maxReconnectAttempts ?m = 5"
    by (simp_all add: new_CieloConnectionManager_def sample_options_def num_or_def)
  have r: "is_rejected (snd (connect_try [''AABBCCDDEEFF''] failing_env))"
    by (simp add: connect_try_def failing_env_def establishConnectionWithAutoSolve_def)
  have rej: "\<forall>env\<in>set (failing_env # [failing_env, failing_env]).
      is_rejected (snd (connect_try (macAddresses ?m) env))"
    using r fields by simp
  have bound: "Suc (length [failing_env, failing_env]) \<le> maxReconnectAttempts ?m"
    using fields by simp
  have res: "snd (connect_try (macAddresses ?m) ?ok) = Resolves"
    by (simp add: fields sample_defs api_defs connect_try_def)
  note T = reconnect_backoff [OF fields(1) fields(2) fields(3) rej bound, of ?m ?ok]
  have one: "reconnectAttempts (fst (fireReconnect
        (failed_attempts (fst (connect ?m failing_env)) [failing_env, failing_env]) 0 ?ok)) \<noteq> 1"
    by (simp add: sample_defs api_defs manager_defs)
  from T res one fields r show ?thesis
    by (simp add: maxDelay_def)
qed

section \<open>Sending leaves the command state alone (C7)\<close>

text \<open>
  Claim C7: sending a command, and building its payload, leaves the command state of
  every device as it was: no optimistic local update is applied. The devices of the
  connection are the same after \<open>#buildCommandPayload\<close>, \<open>sendCommand\<close> and the device
  methods that call it, and after a login or a token refresh; they change in the inbound
  message handler (and are rebuilt from the directory by \<open>subscribeToHVACs\<close>).
\<close>

theorem sendCommand_keeps_commandState:
  "hvacs (fst (buildCommandPayload c hvac a v ts)) = hvacs c
   \<and> hvacs (fst (sendCommand c hvac a v ts)) = hvacs c
   \<and> hvacs (fst (powerOn hvac c ts)) = hvacs c
   \<and> hvacs (fst (powerOff hvac c ts)) = hvacs c
   \<and> hvacs (fst (setMode hvac v c ts)) = hvacs c
   \<and> hvacs (fst (setFanSpeed hvac v c ts)) = hvacs c
   \<and> hvacs (fst (setTemperature hvac v c ts)) = hvacs c
   \<and> (establishConnection c r = Inr c' \<longrightarrow> hvacs c' = hvacs c)
   \<and> (refreshAccessToken c tok r = Inr c' \<longrightarrow> hvacs c' = hvacs c)"
proof -
  have send: "hvacs (fst (buildCommandPayload c hvac a v ts)) = hvacs c"
    "hvacs (fst (sendCommand c hvac a v ts)) = hvacs c" for a v
    by (simp_all add: sendCommand_def buildCommandPayload_def Let_def
          split: option.splits ws_state.splits)
  have login: "hvacs c' = hvacs c" if "establishConnection c r = Inr c'"
    using that by (auto simp: establishConnection_def split: sum.splits)
  have refresh: "hvacs c' = hvacs c" if "refreshAccessToken c tok r = Inr c'"
    using that
    by (auto simp: refreshAccessToken_def Let_def split: if_splits fetch_result.splits)
  from send login refresh show ?thesis
    by (simp add: powerOn_def powerOff_def setMode_def setFanSpeed_def setTemperature_def)
qed

theorem sendCommand_keeps_commandState_witness:
  "map commandState (hvacs (fst (sendCommand
       (subscribed [sample_entry ''AABBCCDDEEFF'' (sample_action ''off'' ''72'' ''cool'' ''auto'')])
       (hd (hvacs (subscribed [sample_entry ''AABBCCDDEEFF'' (sample_action ''off'' ''72'' ''cool'' ''auto'')])))
       ''power'' (JStr ''on'') 1700000000)))
   = [(JStr ''off'', JStr ''cool'', JStr ''auto'', JStr ''72'')]"
proof -
  let ?c = "subscribed [sample_entry ''AABBCCDDEEFF'' (sample_action ''off'' ''72'' ''cool'' ''auto'')]"
  have "map commandState (hvacs ?c) = [(JStr ''off'', JStr ''cool'', JStr ''auto'', JStr ''72'')]"
    by (simp add: sample_defs api_defs commandState_def)
  with sendCommand_keeps_commandState [of ?c "hd (hvacs ?c)" "''power''" "JStr ''on''" 1700000000]
  show ?thesis by simp
qed

section \<open>Frames that do not match (C8)\<close>

text \<open>
  Claim C8, as amended: for a frame whose text parses to a JSON value other than \<open>null\<close>:
  when the type discriminator is missing, empty or not a string, or the \<open>action\<close> object
  is missing, the frame is ignored: no error is raised, no callback is invoked and
  nothing changes; when the device identity matches no subscribed device, no error is
  raised and every device, and the recorded power values, are unchanged, and the only
  effect is that a frame which is a StateUpdate with an \<open>action\<close> object still invokes the
  command callback with that object, and the temperature callback when it carries a
  truthy \<open>lat_env_var.temperature\<close>.
\<close>

theorem nonmatching_frame_ignored:
  assumes "msg = JSONText data" and "\<not> nullish data"
  shows "(\<not> (truthy (getProp data ''message_type'') \<and> typeof (getProp data ''message_type'') = ''string'')
          \<or> \<not> (truthy (getProp data ''action'') \<and> typeof (getProp data ''action'') = ''object'')
          \<longrightarrow> messageListener c msg = Inr c)
    \<and> ((\<forall>h\<in>set (hvacs c). \<not> strict_eq (JStr (getMacAddress h)) (getProp data ''mac_address''))
          \<longrightarrow> messageListener c msg = Inr (c\<lparr> notifications := notifications c @
                (if typeof (getProp data ''message_type'') = ''string''
                    \<and> getProp data ''message_type'' = JStr ''StateUpdate''
                    \<and> truthy (getProp data ''action'')
                    \<and> typeof (getProp data ''action'') = ''object''
                 then (if hasCommandCallback c then [CommandCallback (getProp data ''action'')] else [])
                    @ (if hasTemperatureCallback c \<and> truthy (getProp data ''lat_env_var'')
                          \<and> truthy (getProp (getProp data ''lat_env_var'') ''temperature'')
                       then [TemperatureCallback (getProp (getProp data ''lat_env_var'') ''temperature'')]
                       else [])
                 else []) \<rparr>))"
proof (intro conjI impI)
  assume "\<not> (truthy (getProp data ''message_type'') \<and> typeof (getProp data ''message_type'') = ''string'')
          \<or> \<not> (truthy (getProp data ''action'') \<and> typeof (getProp data ''action'') = ''object'')"
  with assms show "messageListener c msg = Inr c"
    by (auto simp: messageListener_def JSON_parse_def onMessage_def Let_def)
next
  assume no: "\<forall>h\<in>set (hvacs c). \<not> strict_eq (JStr (getMacAddress h)) (getProp data ''mac_address'')"
  have loop: "forEach_hvac data (getProp data ''action'') (getProp data ''mac_address'') (hvacs c)
      (previousPowerStates c) = (hvacs c, previousPowerStates c)"
    using no by (rule forEach_hvac_no_match)
  have same: "c\<lparr> hvacs := hvacs c, previousPowerStates := previousPowerStates c \<rparr> = c"
    by simp
  have nil: "c\<lparr> notifications := notifications c @ [] \<rparr> = c"
    by simp
  show "messageListener c msg = Inr (c\<lparr> notifications := notifications c @
                (if typeof (getProp data ''message_type'') = ''string''
                    \<and> getProp data ''message_type'' = JStr ''StateUpdate''
                    \<and> truthy (getProp data ''action'')
                    \<and> typeof (getProp data ''action'') = ''object''
                 then (if hasCommandCallback c then [CommandCallback (getProp data ''action'')] else [])
                    @ (if hasTemperatureCallback c \<and> truthy (getProp data ''lat_env_var'')
                          \<and> truthy (getProp (getProp data ''lat_env_var'') ''temperature'')
                       then [TemperatureCallback (getProp (getProp data ''lat_env_var'') ''temperature'')]
                       else [])
                 else []) \<rparr>)"
  proof (cases "typeof (getProp data ''message_type'') = ''string''
                    \<and> getProp data ''message_type'' = JStr ''StateUpdate''
                    \<and> truthy (getProp data ''action'')
                    \<and> typeof (getProp data ''action'') = ''object''")
    case True
    with assms loop same show ?thesis
      by (simp add: messageListener_def JSON_parse_def onMessage_def Let_def)
  next
    case False
    have "onMessage c data = Inr c"
    proof (cases "getProp data ''message_type''")
      case (JStr s)
      with False assms(2) show ?thesis
        by (auto simp: onMessage_def Let_def)
    qed (use assms(2) in \<open>simp_all add: onMessage_def Let_def\<close>)
    with False assms(1) nil show ?thesis
      by (simp add: messageListener_def JSON_parse_def)
  qed
qed

text \<open>
  Three frames for a connection subscribed to one device: a numeric \<open>message_type\<close> and
  a missing \<open>action\<close> change nothing; a StateUpdate for a MAC address that is not
  subscribed leaves the device alone and invokes the command callback.
\<close>

theorem nonmatching_frame_ignored_witness:
  "messageListener
      (subscribed [sample_entry ''AABBCCDDEEFF'' (sample_action ''off'' ''72'' ''cool'' ''auto'')])
      (JSONText (JObj [(''message_type'', JNum 7), (''mac_address'', JStr ''AABBCCDDEEFF''),
             (''action'', sample_action ''on'' ''68'' ''heat'' ''high'')]))
     = Inr (subscribed [sample_entry ''AABBCCDDEEFF'' (sample_action ''off'' ''72'' ''cool'' ''auto'')])
   \<and> messageListener
      (subscribed [sample_entry ''AABBCCDDEEFF'' (sample_action ''off'' ''72'' ''cool'' ''auto'')])
      (JSONText (JObj [(''message_type'', JStr ''StateUpdate''), (''mac_address'', JStr ''AABBCCDDEEFF'')]))
     = Inr (subscribed [sample_entry ''AABBCCDDEEFF'' (sample_action ''off'' ''72'' ''cool'' ''auto'')])
   \<and> messageListener
      (subscribed [sample_entry ''AABBCCDDEEFF'' (sample_action ''off'' ''72'' ''cool'' ''auto'')])
      (JSONText (state_update (JStr ''001122334455'') (sample_action ''on'' ''68'' ''heat'' ''high'')))
     = Inr ((subscribed [sample_entry ''AABBCCDDEEFF'' (sample_action ''off'' ''72'' ''cool'' ''auto'')])
              \<lparr> notifications := [CommandCallback (sample_action ''on'' ''68'' ''heat'' ''high'')] \<rparr>)
   \<and> map commandState (hvacs
        ((subscribed [sample_entry ''AABBCCDDEEFF'' (sample_action ''off'' ''72'' ''cool'' ''auto'')])
              \<lparr> notifications := [CommandCallback (sample_action ''on'' ''68'' ''heat'' ''high'')] \<rparr>))
      = [(JStr ''off'', JStr ''cool'', JStr ''auto'', JStr ''72'')]"
proof -
  let ?c = "subscribed [sample_entry ''AABBCCDDEEFF'' (sample_action ''off'' ''72'' ''cool'' ''auto'')]"
  let ?d1 = "JObj [(''message_type'', JNum 7), (''mac_address'', JStr ''AABBCCDDEEFF''),
             (''action'', sample_action ''on'' ''68'' ''heat'' ''high'')]"
  let ?d2 = "JObj [(''message_type'', JStr ''StateUpdate''), (''mac_address'', JStr ''AABBCCDDEEFF'')]"
  let ?d3 = "state_update (JStr ''001122334455'') (sample_action ''on'' ''68'' ''heat'' ''high'')"
  have n: "\<not> nullish ?d1" "\<not> nullish ?d2" "\<not> nullish ?d3"
    by (simp_all add: nullish_def state_update_def)
  have h1: "\<not> (truthy (getProp ?d1 ''message_type'') \<and> typeof (getProp ?d1 ''message_type'') = ''string'')"
    by simp
  have h2: "\<not> (truthy (getProp ?d2 ''action'') \<and> typeof (getProp ?d2 ''action'') = ''object'')"
    by simp
  have h3: "\<forall>h\<in>set (hvacs ?c). \<not> strict_eq (JStr (getMacAddress h)) (getProp ?d3 ''mac_address'')"
    by (simp add: sample_defs api_defs)
  have cb: "hasCommandCallback ?c" "notifications ?c = []"
    by (simp_all add: sample_defs api_defs)
  from nonmatching_frame_ignored [OF refl n(1), of ?c] h1
  have 1: "messageListener ?c (JSONText ?d1) = Inr ?c" by blast
  from nonmatching_frame_ignored [OF refl n(2), of ?c] h2
  have 2: "messageListener ?c (JSONText ?d2) = Inr ?c" by blast
  from nonmatching_frame_ignored [OF refl n(3), of ?c] h3 cb
  have 3: "messageListener ?c (JSONText ?d3)
      = Inr (?c\<lparr> notifications := [CommandCallback (sample_action ''on'' ''68'' ''heat'' ''high'')] \<rparr>)"
    by (simp add: state_update_def sample_action_def)
  have 4: "map commandState (hvacs
        (?c\<lparr> notifications := [CommandCallback (sample_action ''on'' ''68'' ''heat'' ''high'')] \<rparr>))
      = [(JStr ''off'', JStr ''cool'', JStr ''auto'', JStr ''72'')]"
    by (simp add: sample_defs api_defs commandState_def)
  from 1 2 3 4 show ?thesis by blast
qed

text \<open>
  The claim as stated fails: the frame \<open>null\<close> carries no type discriminator, and the
  listener raises a TypeError on it; a frame that is not JSON text makes it raise a
  SyntaxError.
\<close>

theorem null_frame_raises_counterexample:
  "messageListener
      (subscribed [sample_entry ''AABBCCDDEEFF'' (sample_action ''off'' ''72'' ''cool'' ''auto'')])
      (JSONText JNull)
     = Inl (TypeError ''Cannot read properties (reading message_type)'')
   \<and> messageListener
      (subscribed [sample_entry ''AABBCCDDEEFF'' (sample_action ''off'' ''72'' ''cool'' ''auto'')])
      NotJSON
     = Inl (SyntaxError ''Unexpected token in JSON'')"
  by (simp add: messageListener_def JSON_parse_def onMessage_def nullish_def)

section \<open>Token refresh (C9)\<close>

text \<open>
  Claim C9, as amended: for a session obtained by a successful login, a successful token
  refresh leaves the user id and the session id unchanged and replaces the access token,
  the refresh token and the expiry by the values of the refresh response; the new expiry
  is the one the backend returned, so it is greater than the old one exactly when the
  returned value is.
\<close>

theorem refresh_keeps_identity:
  assumes "establishConnection c0 lr = Inr c1"
    and "refreshAccessToken c1 tok (FetchJSON st body) = Inr c2"
  shows "userID c2 = userID c1 \<and> sessionID c2 = sessionID c1
    \<and> accessToken c2 = getProp (getProp body ''data'') ''accessToken''
    \<and> refreshToken c2 = getProp (getProp body ''data'') ''refreshToken''
    \<and> expiresIn c2 = getProp (getProp body ''data'') ''expiresIn''
    \<and> (js_less (expiresIn c1) (expiresIn c2)
         \<longleftrightarrow> js_less (expiresIn c1) (getProp (getProp body ''data'') ''expiresIn''))"
  using assms(2)
  by (auto simp: refreshAccessToken_def Let_def split: if_splits)

text \<open>A login that expires at 1700003600, refreshed with a response that expires an hour later.\<close>

theorem refresh_keeps_identity_witness:
  "identity_of (establishConnection (new_CieloAPIConnection True True) (sample_login 1700003600))
     = (JStr ''u-1'', JStr ''s-1'')
   \<and> identity_of (login_then_refresh (sample_login 1700003600)
        (FetchJSON 200 (sample_refresh_body 1700007200))) = (JStr ''u-1'', JStr ''s-1'')
   \<and> expiry_of (login_then_refresh (sample_login 1700003600)
        (FetchJSON 200 (sample_refresh_body 1700007200))) = JNum 1700007200"
proof -
  define c0 where "c0 = new_CieloAPIConnection True True"
  define c1 where "c1 = c0\<lparr> sessionID := JStr ''s-1'', userID := JStr ''u-1'',
     accessToken := JStr ''at-1'', refreshToken := JStr ''rt-1'', expiresIn := JNum 1700003600 \<rparr>"
  define c2 where "c2 = c1\<lparr> accessToken := JStr ''at-2'', refreshToken := JStr ''rt-2'',
     expiresIn := JNum 1700007200 \<rparr>"
  have L: "establishConnection c0 (sample_login 1700003600) = Inr c1"
    by (simp add: c1_def establishConnection_def getAccessTokenAndSessionId_def sample_login_def
          nullish_def)
  have R: "refreshAccessToken c1 JUndefined (FetchJSON 200 (sample_refresh_body 1700007200)) = Inr c2"
    by (simp add: c1_def c2_def refreshAccessToken_def sample_refresh_body_def js_or_def nullish_def
          Let_def)
  from refresh_keeps_identity [OF L R]
  have K: "userID c2 = userID c1" "sessionID c2 = sessionID c1" "expiresIn c2 = JNum 1700007200"
    by (simp_all add: sample_refresh_body_def)
  have I: "userID c1 = JStr ''u-1''" "sessionID c1 = JStr ''s-1''"
    by (simp_all add: c1_def)
  from L R K I show ?thesis
    by (simp add: login_then_refresh_def identity_of_def expiry_of_def getExpiresIn_def
          c0_def [symmetric])
qed

text \<open>
  The claim as stated fails: when the refresh response carries the expiry the session
  already had, the expiry after the refresh is not greater than before.
\<close>

theorem refresh_expiry_counterexample:
  "expiry_of (establishConnection (new_CieloAPIConnection True True) (sample_login 1700003600))
     = JNum 1700003600
   \<and> expiry_of (login_then_refresh (sample_login 1700003600)
        (FetchJSON 200 (sample_refresh_body 1700003600))) = JNum 1700003600
   \<and> \<not> js_less
        (expiry_of (establishConnection (new_CieloAPIConnection True True) (sample_login 1700003600)))
        (expiry_of (login_then_refresh (sample_login 1700003600)
           (FetchJSON 200 (sample_refresh_body 1700003600))))"
  by (simp add: sample_defs api_defs expiry_of_def login_then_refresh_def js_less_def
        refreshAccessToken_def js_or_def)

section \<open>The device type version (C10)\<close>

text \<open>
  Claim C10, as amended: the device type version of every device object starts with \<open>BI\<close>
  or \<open>BP\<close>. The constructor stores a supplied string that starts with \<open>BI\<close> or \<open>BP\<close> as
  it is, and stores \<open>BP01\<close> for any other string and for a missing or otherwise falsy
  value; the getter returns the stored value, and every command payload carries it.
\<close>

theorem deviceTypeVersion_always_prefixed:
  "(\<exists>h. new_CieloHVAC mac name appl fw (JStr s) = Inr h
        \<and> deviceTypeVersion h = (if valid_deviceTypeVersion s then s else ''BP01'')
        \<and> getDeviceTypeVersion h = (if valid_deviceTypeVersion s then s else ''BP01''))
   \<and> (\<not> truthy dtv \<longrightarrow>
        (\<exists>h. new_CieloHVAC mac name appl fw dtv = Inr h
             \<and> deviceTypeVersion h = ''BP01'' \<and> getDeviceTypeVersion h = ''BP01''))
   \<and> (hvac_object g \<longrightarrow>
        valid_deviceTypeVersion (deviceTypeVersion g)
        \<and> getDeviceTypeVersion g = deviceTypeVersion g
        \<and> getProp (snd (buildCommandPayload c g a v ts)) ''deviceTypeVersion''
            = JStr (deviceTypeVersion g))"
proof -
  have 1: "\<exists>h. new_CieloHVAC mac name appl fw (JStr s) = Inr h
        \<and> deviceTypeVersion h = (if valid_deviceTypeVersion s then s else ''BP01'')
        \<and> getDeviceTypeVersion h = (if valid_deviceTypeVersion s then s else ''BP01'')"
  proof (cases "valid_deviceTypeVersion s")
    case True
    with valid_deviceTypeVersion_nonempty [OF True] show ?thesis
      by (simp add: new_CieloHVAC_def hvac_fields_def getDeviceTypeVersion_def)
  next
    case False
    then show ?thesis
      by (simp add: new_CieloHVAC_def hvac_fields_def getDeviceTypeVersion_def)
  qed
  have 2: "\<exists>h. new_CieloHVAC mac name appl fw dtv = Inr h
             \<and> deviceTypeVersion h = ''BP01'' \<and> getDeviceTypeVersion h = ''BP01''"
    if "\<not> truthy dtv"
    using that by (simp add: new_CieloHVAC_def hvac_fields_def getDeviceTypeVersion_def)
  have 3: "valid_deviceTypeVersion (deviceTypeVersion g)
        \<and> getDeviceTypeVersion g = deviceTypeVersion g
        \<and> getProp (snd (buildCommandPayload c g a v ts)) ''deviceTypeVersion''
            = JStr (deviceTypeVersion g)" if "hvac_object g"
    using hvac_object_valid [OF that] valid_deviceTypeVersion_nonempty [of "deviceTypeVersion g"]
    by (simp add: payload_deviceTypeVersion getDeviceTypeVersion_def)
  from 1 2 3 show ?thesis by blast
qed

text \<open>
  \<open>BI02\<close> is kept, \<open>XX01\<close> and \<open>undefined\<close> become \<open>BP01\<close>; the getter of the device built
  with \<open>BI02\<close> returns \<open>BI02\<close>, and so does the payload of a command for it after a state
  update.
\<close>

theorem deviceTypeVersion_always_prefixed_witness:
  "new_CieloHVAC ''AABBCCDDEEFF'' (JStr ''Living Room'') (JNum 1234) (JStr ''2.4.2'') (JStr ''BI02'')
       = Inr (sample_device ''BI02'')
   \<and> new_CieloHVAC ''AABBCCDDEEFF'' (JStr ''Living Room'') (JNum 1234) (JStr ''2.4.2'') (JStr ''XX01'')
       = Inr (sample_device ''BP01'')
   \<and> new_CieloHVAC ''AABBCCDDEEFF'' (JStr ''Living Room'') (JNum 1234) (JStr ''2.4.2'') JUndefined
       = Inr (sample_device ''BP01'')
   \<and> getDeviceTypeVersion (sample_device ''BI02'') = ''BI02''
   \<and> hvac_object (updateState (sample_device ''BI02'') (JStr ''on'') (JStr ''68'') (JStr ''heat'')
        (JStr ''high''))
   \<and> getProp (snd (buildCommandPayload (new_CieloAPIConnection True True)
         (updateState (sample_device ''BI02'') (JStr ''on'') (JStr ''68'') (JStr ''heat'') (JStr ''high''))
         ''mode'' (JStr ''cool'') 1700000000)) ''deviceTypeVersion'' = JStr ''BI02''"
proof -
  let ?g = "updateState (sample_device ''BI02'') (JStr ''on'') (JStr ''68'') (JStr ''heat'') (JStr ''high'')"
  have v1: "valid_deviceTypeVersion ''BI02''" and v2: "\<not> valid_deviceTypeVersion ''XX01''"
    by (simp_all add: valid_deviceTypeVersion_def startsWith_def)
  have c1: "new_CieloHVAC ''AABBCCDDEEFF'' (JStr ''Living Room'') (JNum 1234) (JStr ''2.4.2'')
        (JStr ''BI02'') = Inr (sample_device ''BI02'')"
    by (simp add: new_CieloHVAC_def v1 hvac_fields_def sample_device_def DEFAULT_POWER_def
          DEFAULT_MODE_def DEFAULT_FAN_def DEFAULT_TEMPERATURE_def)
  have c2: "new_CieloHVAC ''AABBCCDDEEFF'' (JStr ''Living Room'') (JNum 1234) (JStr ''2.4.2'')
        (JStr ''XX01'') = Inr (sample_device ''BP01'')"
    by (simp add: new_CieloHVAC_def v2 hvac_fields_def sample_device_def DEFAULT_POWER_def
          DEFAULT_MODE_def DEFAULT_FAN_def DEFAULT_TEMPERATURE_def)
  have c3: "new_CieloHVAC ''AABBCCDDEEFF'' (JStr ''Living Room'') (JNum 1234) (JStr ''2.4.2'')
        JUndefined = Inr (sample_device ''BP01'')"
    by (simp add: new_CieloHVAC_def hvac_fields_def sample_device_def DEFAULT_POWER_def
          DEFAULT_MODE_def DEFAULT_FAN_def DEFAULT_TEMPERATURE_def)
  have obj: "hvac_object ?g"
    by (rule state_updated, rule constructed, rule c1)
  have d: "deviceTypeVersion ?g = ''BI02''"
    by (simp add: updateState_def sample_device_def)
  note T = deviceTypeVersion_always_prefixed
    [of "''AABBCCDDEEFF''" "JStr ''Living Room''" "JNum 1234" "JStr ''2.4.2''" "''BI02''"
        JUndefined]
  from T [of "sample_device ''BI02''"] constructed [OF c1]
  have g1: "getDeviceTypeVersion (sample_device ''BI02'') = ''BI02''"
    by (simp add: sample_device_def)
  from T [of ?g "new_CieloAPIConnection True True" "''mode''" "JStr ''cool''" 1700000000] obj d
  have g2: "getProp (snd (buildCommandPayload (new_CieloAPIConnection True True) ?g
         ''mode'' (JStr ''cool'') 1700000000)) ''deviceTypeVersion'' = JStr ''BI02''"
    by simp
  from c1 c2 c3 g1 obj g2 show ?thesis by blast
qed

text \<open>
  The claim as stated fails on a value that is neither a string nor falsy: with the
  number 5 as device type version the constructor raises a TypeError instead of storing
  \<open>BP01\<close>, and no device object is created.
\<close>

theorem truthy_nonstring_raises_counterexample:
  "new_CieloHVAC ''AABBCCDDEEFF'' (JStr ''Living Room'') (JNum 1234) (JStr ''2.4.2'') (JNum 5)
     = Inl (TypeError ''deviceTypeVersion.startsWith is not a function'')"
  by (simp add: new_CieloHVAC_def)

end
